theory Spec2Isabelle
  imports Complex_Main
begin

section \<open>JavaScript values used by Constraint.js\<close>

text \<open>
  Term names and comparison operators are JavaScript strings, modelled as \<open>string\<close>: a
  list of characters with codes 0 to 255.
\<close>

subsection \<open>Numbers\<close>

text \<open>
  A JavaScript number is a binary64 floating-point number. The model keeps a number as
  the real number it denotes and rounds the result of every sum and product to binary64
  with \<open>fl\<close>: to the nearest number with a significand of 53 bits, a tie going to the even
  significand, on the grid of the subnormal numbers (multiples of \<open>2^-1074\<close>) below the
  normal range. \<open>ulp_exponent x\<close> is the exponent of the last significand bit at the
  magnitude of \<open>x\<close>. The sign change \<open>-v\<close> is exact. The values \<open>Infinity\<close> and \<open>NaN\<close>
  are not numbers of the model: a result beyond the largest binary64 number stays the
  rounded real number.
\<close>

definition round_half_even :: "real \<Rightarrow> int" where
  "round_half_even r =
     (let f = \<lfloor>r\<rfloor>
      in if r - of_int f < 1 / 2 then f
         else if 1 / 2 < r - of_int f then f + 1
         else if even f then f else f + 1)"

definition ulp_exponent :: "real \<Rightarrow> int" where
  "ulp_exponent x = max (\<lfloor>log 2 \<bar>x\<bar>\<rfloor> - 52) (- 1074)"

definition fl :: "real \<Rightarrow> real" where
  "fl x =
     (if x = 0 then 0
      else of_int (round_half_even (x / 2 powi ulp_exponent x)) * 2 powi ulp_exponent x)"

text \<open>\<open>a + b\<close> and \<open>a * b\<close> on numbers.\<close>

definition js_add :: "real \<Rightarrow> real \<Rightarrow> real" where
  "js_add a b = fl (a + b)"

definition js_mul :: "real \<Rightarrow> real \<Rightarrow> real" where
  "js_mul a b = fl (a * b)"

text \<open>The real numbers that are binary64 numbers.\<close>

definition binary64 :: "real \<Rightarrow> bool" where
  "binary64 v = (\<exists>m e. \<bar>m\<bar> < 2 ^ 53 \<and> - 1074 \<le> e \<and> e \<le> 971 \<and> v = of_int m * 2 powi e)"

subsection \<open>Strings\<close>

text \<open>The class \<open>\s\<close> of a regular expression, on the characters a \<open>string\<close> holds:
  tab, line feed, vertical tab, form feed, carriage return, space and the no-break space
  (code 160). The other white space characters of the language have codes above 255.\<close>

definition is_space :: "char \<Rightarrow> bool" where
  "is_space c = (c = CHR '' '' \<or> c = CHR 0x09 \<or> c = CHR 0x0A \<or> c = CHR 0x0B
                 \<or> c = CHR 0x0C \<or> c = CHR 0x0D \<or> c = CHR 0xA0)"

text \<open>\<open>str.replace(/\s/g, "")\<close>\<close>

definition remove_spaces :: "string \<Rightarrow> string" where
  "remove_spaces s = filter (\<lambda>c. \<not> is_space c) s"

text \<open>\<open>/lit/.test(s)\<close> for a regular expression that is a literal word: \<open>s\<close> contains
  the word.\<close>

fun starts_with :: "string \<Rightarrow> string \<Rightarrow> bool" where
  "starts_with [] s = True"
| "starts_with (p # ps) [] = False"
| "starts_with (p # ps) (c # cs) = (p = c \<and> starts_with ps cs)"

fun re_test_word :: "string \<Rightarrow> string \<Rightarrow> bool" where
  "re_test_word w [] = (w = [])"
| "re_test_word w (c # cs) = (starts_with w (c # cs) \<or> re_test_word w cs)"

text \<open>\<open>/left|right/.test(s)\<close>\<close>

definition test_left_or_right :: "string \<Rightarrow> bool" where
  "test_left_or_right s = (re_test_word ''left'' s \<or> re_test_word ''right'' s)"

section \<open>Expression\<close>

text \<open>
  Modelled from the spec: Expression.js is not among the source files. Its methods, as
  far as Constraint.js calls them, follow section 4.1 of the specification. An Expression
  holds \<open>terms\<close>, a JavaScript object from term names to coefficients; it is an
  association list here, in insertion order. The reserved name \<open>"1"\<close> is the constant
  term.
\<close>

record expression =
  terms :: "(string \<times> real) list"

text \<open>Modelled from the spec: \<open>Expression.hasTerm(name)\<close>, which is not in the sources.\<close>

definition hasTerm :: "expression \<Rightarrow> string \<Rightarrow> bool" where
  "hasTerm e name = (map_of (terms e) name \<noteq> None)"

text \<open>Modelled from the spec: \<open>Expression.getTermValue(name)\<close> ("returns 0 if absent"),
  which is not in the sources.\<close>

definition getTermValue :: "expression \<Rightarrow> string \<Rightarrow> real" where
  "getTermValue e name = (case map_of (terms e) name of None \<Rightarrow> 0 | Some v \<Rightarrow> v)"

text \<open>Modelled from the spec: storing a coefficient under a name, as \<open>addTerm\<close> does. An
  existing property keeps its place, a new one is added last.\<close>

fun set_term :: "string \<Rightarrow> real \<Rightarrow> (string \<times> real) list \<Rightarrow> (string \<times> real) list" where
  "set_term name v [] = [(name, v)]"
| "set_term name v ((k, w) # ts) =
     (if k = name then (name, v) # ts else (k, w) # set_term name v ts)"

text \<open>Modelled from the spec: \<open>Expression.addTerm(name, value)\<close>, which is not in the
  sources: "adds value to the existing coefficient for name (creates the term if
  absent)"; a resulting coefficient of 0 is kept. The sum is a sum of numbers.\<close>

definition addTerm :: "expression \<Rightarrow> string \<Rightarrow> real \<Rightarrow> expression" where
  "addTerm e name v = e\<lparr>terms := set_term name (js_add (getTermValue e name) v) (terms e)\<rparr>"

text \<open>Modelled from the spec: \<open>Expression.removeTerm(name)\<close>, which is not in the
  sources: "deletes the term; no-op if absent".\<close>

definition removeTerm :: "expression \<Rightarrow> string \<Rightarrow> expression" where
  "removeTerm e name = e\<lparr>terms := filter (\<lambda>(k, v). k \<noteq> name) (terms e)\<rparr>"

text \<open>Modelled from the spec: \<open>Expression.scale(factor)\<close>, which is not in the sources:
  "multiplies every coefficient (including constant) by factor".\<close>

definition scale_e :: "expression \<Rightarrow> real \<Rightarrow> expression" where
  "scale_e e factor = e\<lparr>terms := map (\<lambda>(k, v). (k, js_mul v factor)) (terms e)\<rparr>"

text \<open>Modelled from the spec: \<open>Expression.inverse()\<close>, which is not in the sources:
  "equivalent to scale(-1)". The product of a number and -1 is the number with its sign
  changed, without rounding (\<open>inverse_e_scale\<close> below), and that is what the model
  computes.\<close>

definition inverse_e :: "expression \<Rightarrow> expression" where
  "inverse_e e = e\<lparr>terms := map (\<lambda>(k, v). (k, - v)) (terms e)\<rparr>"

text \<open>Modelled from the spec: \<open>Expression.forEachVariable(fn)\<close> and
  \<open>Expression.forEachConstant(fn)\<close>, which are not in the sources: "applies
  fn(name, value) to every non-constant / to the constant term respectively". The model
  gives the (name, value) pairs the callback is applied to, in order.\<close>

definition forEachVariable :: "expression \<Rightarrow> (string \<times> real) list" where
  "forEachVariable e = filter (\<lambda>(k, v). k \<noteq> ''1'') (terms e)"

definition forEachConstant :: "expression \<Rightarrow> (string \<times> real) list" where
  "forEachConstant e = filter (\<lambda>(k, v). k = ''1'') (terms e)"

section \<open>Constraint\<close>

text \<open>The fields the constructor sets. The field \<open>terms\<close> of a Constraint (always the
  empty object) is named \<open>terms_c\<close>.\<close>

record constraint =
  comparison :: string
  leftSide :: expression
  rightSide :: expression
  slackValue :: real
  terms_c :: "(string \<times> real) list"

text \<open>\<open>Constraint.EPSILON = 1e-6\<close>: the number the literal \<open>1e-6\<close> denotes, which is
  \<open>4722366482869645 / 2^72\<close> (\<open>EPSILON_value\<close> below).\<close>

definition EPSILON :: real where
  "EPSILON = fl (1 / 1000000)"

text \<open>\<open>Constraint.switchSides(sideA, sideB, forEachTermFunc)\<close>: the callback, and the
  loop over the pairs \<open>forEachTermFunc\<close> visits. The state is the pair (sideA, sideB).\<close>

definition switch_term :: "string \<times> real \<Rightarrow> expression \<times> expression \<Rightarrow> expression \<times> expression" where
  "switch_term p ab = (case p of (name, v) \<Rightarrow> (case ab of (a, b) \<Rightarrow>
     (let b' = addTerm b name (- v); a' = removeTerm a name in (a', b'))))"

definition switchSides ::
  "expression \<Rightarrow> expression \<Rightarrow> (expression \<Rightarrow> (string \<times> real) list) \<Rightarrow> expression \<times> expression" where
  "switchSides sideA sideB forEachTermFunc = fold switch_term (forEachTermFunc sideA) (sideA, sideB)"

text \<open>\<open>getSwappedSides(doSwap)\<close> returns the two sides as (a, b); \<open>put_sides\<close> writes the
  pair back where it came from (the code mutates the two objects in place).\<close>

definition getSwappedSides :: "bool \<Rightarrow> constraint \<Rightarrow> expression \<times> expression" where
  "getSwappedSides doSwap c =
     ((if \<not> doSwap then leftSide c else rightSide c), (if doSwap then leftSide c else rightSide c))"

definition put_sides :: "bool \<Rightarrow> expression \<times> expression \<Rightarrow> constraint \<Rightarrow> constraint" where
  "put_sides doSwap ab c =
     (if \<not> doSwap then c\<lparr>leftSide := fst ab, rightSide := snd ab\<rparr>
      else c\<lparr>leftSide := snd ab, rightSide := fst ab\<rparr>)"

definition moveTypeToOneSide :: "string \<Rightarrow> string \<Rightarrow> constraint \<Rightarrow> constraint" where
  "moveTypeToOneSide varSide numSide c =
     (let c1 = (if test_left_or_right varSide
                then (let sw = re_test_word ''left'' varSide;
                          varSides = getSwappedSides sw c
                      in put_sides sw (switchSides (fst varSides) (snd varSides) forEachVariable) c)
                else c)
      in (if test_left_or_right numSide
          then (let sw = re_test_word ''left'' numSide;
                    numSides = getSwappedSides sw c1
                in put_sides sw (switchSides (fst numSides) (snd numSides) forEachConstant) c1)
          else c1))"

definition inverse_c :: "constraint \<Rightarrow> constraint" where
  "inverse_c c = c\<lparr>leftSide := inverse_e (leftSide c), rightSide := inverse_e (rightSide c)\<rparr>"

text \<open>The object literal \<open>oppositeCompare\<close> of \<open>negateComparison\<close>, on the values a
  comparison takes: the five operators and the constructor's empty string. (For a
  string that names a member of \<open>Object.prototype\<close> the lookup would give that member; no
  method of Constraint stores such a string.)\<close>

definition oppositeCompare :: "string \<Rightarrow> string option" where
  "oppositeCompare = map_of
     [(''>='', ''<''), (''>'', ''<=''), (''<='', ''>''), (''<'', ''>='')]"

definition negateComparison :: "constraint \<Rightarrow> constraint" where
  "negateComparison c =
     (case oppositeCompare (comparison c) of
        Some opp \<Rightarrow> inverse_c (c\<lparr>comparison := opp\<rparr>)
      | None \<Rightarrow> c)"

definition removeStrictInEquality :: "constraint \<Rightarrow> constraint" where
  "removeStrictInEquality c =
     (if comparison c = ''<'' \<or> comparison c = ''>''
      then (let cmp = comparison c @ ''='';
                eps = js_mul EPSILON (if re_test_word ''>'' cmp then 1 else - 1)
            in c\<lparr>comparison := cmp, rightSide := addTerm (rightSide c) ''1'' eps\<rparr>)
      else c)"

definition normalize :: "constraint \<Rightarrow> constraint" where
  "normalize c = removeStrictInEquality (moveTypeToOneSide ''left'' ''right'' c)"

definition addSurplus :: "constraint \<Rightarrow> constraint" where
  "addSurplus c = c\<lparr>slackValue := - 1, leftSide := addTerm (leftSide c) ''surplus'' (- 1)\<rparr>"

definition addSlack :: "constraint \<Rightarrow> constraint" where
  "addSlack c = c\<lparr>slackValue := 1, leftSide := addTerm (leftSide c) ''slack'' 1\<rparr>"

definition getStandardMaxForm :: "constraint \<Rightarrow> constraint" where
  "getStandardMaxForm c =
     (let c1 = normalize c;
          c2 = (if comparison c1 = ''<='' then addSlack c1
                else if comparison c1 = ''>='' then addSurplus c1
                else c1)
      in c2\<lparr>comparison := ''=''\<rparr>)"

definition scale_c :: "constraint \<Rightarrow> real \<Rightarrow> constraint" where
  "scale_c c factor =
     c\<lparr>leftSide := scale_e (leftSide c) factor, rightSide := scale_e (rightSide c) factor\<rparr>"

text \<open>The global function \<open>isNaN\<close> on a string: the string is not a numeric literal
  of the language (StringNumericLiteral: optional white space around an optionally signed
  decimal literal, \<open>Infinity\<close>, or an unsigned hexadecimal, octal or binary integer; the empty
  string and white space convert to 0).\<close>

definition is_digit :: "char \<Rightarrow> bool" where
  "is_digit c = (c \<in> set ''0123456789'')"

definition is_hex_digit :: "char \<Rightarrow> bool" where
  "is_hex_digit c = (c \<in> set ''0123456789abcdefABCDEF'')"

definition trim_spaces :: "string \<Rightarrow> string" where
  "trim_spaces s = rev (dropWhile is_space (rev (dropWhile is_space s)))"

definition digits1 :: "string \<Rightarrow> bool" where
  "digits1 s = (s \<noteq> [] \<and> list_all is_digit s)"

text \<open>What may follow the mantissa: nothing, or an exponent part.\<close>

definition exponent_part_opt :: "string \<Rightarrow> bool" where
  "exponent_part_opt s =
     (case s of
        [] \<Rightarrow> True
      | c # r \<Rightarrow> (c = CHR ''e'' \<or> c = CHR ''E'') \<and>
          (case r of
             [] \<Rightarrow> False
           | d # r' \<Rightarrow> if d = CHR ''+'' \<or> d = CHR ''-'' then digits1 r' else digits1 r))"

definition unsigned_decimal :: "string \<Rightarrow> bool" where
  "unsigned_decimal s =
     (s = ''Infinity'' \<or>
      (let ip = takeWhile is_digit s; r1 = dropWhile is_digit s
       in (case r1 of
             c # r \<Rightarrow>
               if c = CHR ''.''
               then (ip \<noteq> [] \<or> takeWhile is_digit r \<noteq> []) \<and> exponent_part_opt (dropWhile is_digit r)
               else ip \<noteq> [] \<and> exponent_part_opt r1
           | [] \<Rightarrow> ip \<noteq> [])))"

definition non_decimal_integer :: "string \<Rightarrow> bool" where
  "non_decimal_integer s =
     (case s of
        z # x # ds \<Rightarrow> z = CHR ''0'' \<and> ds \<noteq> [] \<and>
          ((x \<in> set ''xX'' \<and> list_all is_hex_digit ds) \<or>
           (x \<in> set ''oO'' \<and> list_all (\<lambda>c. c \<in> set ''01234567'') ds) \<or>
           (x \<in> set ''bB'' \<and> list_all (\<lambda>c. c \<in> set ''01'') ds))
      | _ \<Rightarrow> False)"

definition numeric_literal :: "string \<Rightarrow> bool" where
  "numeric_literal s =
     (non_decimal_integer s \<or>
      (case s of
         c # r \<Rightarrow> if c = CHR ''+'' \<or> c = CHR ''-'' then unsigned_decimal r else unsigned_decimal s
       | [] \<Rightarrow> True))"

definition isNaN :: "string \<Rightarrow> bool" where
  "isNaN s = (\<not> numeric_literal (trim_spaces s))"

definition varSwitchSide :: "string \<Rightarrow> string \<Rightarrow> constraint \<Rightarrow> constraint" where
  "varSwitchSide name moveTo c =
     (if \<not> test_left_or_right moveTo then c
      else (let name' = (if isNaN name then name else ''1'');
                sideA = (if ''left'' = moveTo then rightSide c else leftSide c);
                sideB = (if ''left'' \<noteq> moveTo then rightSide c else leftSide c)
            in if hasTerm sideA name'
               then (let sideB' = addTerm sideB name' (- getTermValue sideA name');
                         sideA' = removeTerm sideA name'
                     in if ''left'' = moveTo
                        then c\<lparr>rightSide := sideA', leftSide := sideB'\<rparr>
                        else c\<lparr>leftSide := sideA', rightSide := sideB'\<rparr>)
               else c))"

section \<open>Checking and parsing the text of a Constraint\<close>

text \<open>\<open>str.match(/[<>]=?|=/g) || []\<close>: the comparison operators of a text, left to right.\<close>

fun compare_matches :: "string \<Rightarrow> string list" where
  "compare_matches [] = []"
| "compare_matches (c # cs) =
     (if c = CHR ''<'' \<or> c = CHR ''>''
      then (case cs of
              [] \<Rightarrow> [[c]]
            | d # ds \<Rightarrow> if d = CHR ''='' then [c, d] # compare_matches ds
                        else [c] # compare_matches cs)
      else if c = CHR ''='' then [c] # compare_matches cs
      else compare_matches cs)"

definition hasManyCompares :: "string \<Rightarrow> bool" where
  "hasManyCompares str = (1 < length (compare_matches (remove_spaces str)))"

text \<open>The character class \<open>[+\-><=]\<close>.\<close>

definition is_op :: "char \<Rightarrow> bool" where
  "is_op c = (c = CHR ''+'' \<or> c = CHR ''-'' \<or> c = CHR ''>'' \<or> c = CHR ''<'' \<or> c = CHR ''='')"

text \<open>\<open>/[^+\-><=]\s+[^+\-><=]/.test(str)\<close>. \<open>after_spaces\<close> is the rest of the pattern once
  one white space character has been read: more white space, then a character outside the
  class.\<close>

fun after_spaces :: "string \<Rightarrow> bool" where
  "after_spaces [] = False"
| "after_spaces (c # cs) = (\<not> is_op c \<or> (is_space c \<and> after_spaces cs))"

fun hasNoOperatorBetweenValues :: "string \<Rightarrow> bool" where
  "hasNoOperatorBetweenValues (x # s # rest) =
     ((\<not> is_op x \<and> is_space s \<and> after_spaces rest) \<or> hasNoOperatorBetweenValues (s # rest))"
| "hasNoOperatorBetweenValues [x] = False"
| "hasNoOperatorBetweenValues [] = False"

text \<open>\<open>/[+\-][><=+\-]|[><=+\-]$/.test(noSpaceStr)\<close>\<close>

fun RE_noLeftAndRightTerms :: "string \<Rightarrow> bool" where
  "RE_noLeftAndRightTerms [] = False"
| "RE_noLeftAndRightTerms [c] = is_op c"
| "RE_noLeftAndRightTerms (c # d # rest) =
     (((c = CHR ''+'' \<or> c = CHR ''-'') \<and> is_op d) \<or> RE_noLeftAndRightTerms (d # rest))"

definition hasIncompleteBinaryOperator :: "string \<Rightarrow> bool" where
  "hasIncompleteBinaryOperator str =
     (let noSpaceStr = remove_spaces str
      in RE_noLeftAndRightTerms noSpaceStr \<or> hasNoOperatorBetweenValues str)"

text \<open>\<open>getErrorMessage\<close> returns the message, or \<open>undefined\<close> (\<open>None\<close>).\<close>

definition getErrorMessage :: "string \<Rightarrow> string option" where
  "getErrorMessage str =
     (let errMsg = (if hasManyCompares str
                    then Some ''Only 1 comparision (<,>,=, >=, <=) is allow in a Constraint.''
                    else None)
      in if errMsg = None \<and> hasIncompleteBinaryOperator str
         then Some ''Math operators must be in between terms. Good:(a+b=c). Bad:(a b+=c)''
         else errMsg)"

text \<open>\<open>throw new Error(errMsg)\<close> is the value \<open>Inl (Error errMsg)\<close>. The test \<open>if (errMsg)\<close>
  is false for \<open>undefined\<close> and for the empty string.\<close>

datatype error = Error string

definition checkInput :: "string \<Rightarrow> error + unit" where
  "checkInput str =
     (case getErrorMessage str of
        Some errMsg \<Rightarrow> if errMsg \<noteq> [] then Inl (Error errMsg) else Inr ()
      | None \<Rightarrow> Inr ())"

text \<open>\<open>str.split(/[><]=?|=/)\<close>: the pieces between the comparison operators, as the first
  piece and the list of the others (\<open>arr[0]\<close> always exists). \<open>cur\<close> holds the piece being
  read, reversed.\<close>

fun split_compare :: "string \<Rightarrow> string \<Rightarrow> string \<times> string list" where
  "split_compare cur [] = (rev cur, [])"
| "split_compare cur (c # cs) =
     (if c = CHR ''<'' \<or> c = CHR ''>''
      then (case cs of
              [] \<Rightarrow> (rev cur, [[]])
            | d # ds \<Rightarrow>
                if d = CHR ''='' then (case split_compare [] ds of (p, ps) \<Rightarrow> (rev cur, p # ps))
                else (case split_compare [] cs of (p, ps) \<Rightarrow> (rev cur, p # ps)))
      else if c = CHR ''='' then (case split_compare [] cs of (p, ps) \<Rightarrow> (rev cur, p # ps))
      else split_compare (c # cur) cs)"

text \<open>\<open>"" + RE_comparison.exec(str)\<close>: the first comparison operator of the text; \<open>exec\<close>
  gives \<open>null\<close> when there is none.\<close>

definition exec_comparison :: "string \<Rightarrow> string" where
  "exec_comparison str = (case compare_matches str of [] \<Rightarrow> ''null'' | m # ms \<Rightarrow> m)"

record parsed =
  lhs :: expression
  rhs :: expression
  comparison_p :: string

text \<open>\<open>Expression.parse\<close> is not in the sources (the specification leaves the tokenizer
  out of scope); \<open>parseToObject\<close> and \<open>parse\<close> take it as the parameter \<open>eparse\<close>, a
  function that returns an Expression or throws.\<close>

definition parseToObject :: "(string \<Rightarrow> error + expression) \<Rightarrow> string \<Rightarrow> error + parsed" where
  "parseToObject eparse str =
     (case checkInput str of
        Inl e \<Rightarrow> Inl e
      | Inr u \<Rightarrow>
          (case split_compare [] str of (arr0, arr_rest) \<Rightarrow>
             (case eparse ''0'' of
                Inl e \<Rightarrow> Inl e
              | Inr rhs0 \<Rightarrow>
                  (case eparse arr0 of
                     Inl e \<Rightarrow> Inl e
                   | Inr l \<Rightarrow>
                       (case arr_rest of
                          [] \<Rightarrow> Inr \<lparr>lhs = l, rhs = rhs0, comparison_p = ''=''\<rparr>
                        | arr1 # arr_more \<Rightarrow>
                            (case eparse arr1 of
                               Inl e \<Rightarrow> Inl e
                             | Inr r \<Rightarrow>
                                 Inr \<lparr>lhs = l, rhs = r, comparison_p = exec_comparison str\<rparr>))))))"

text \<open>\<open>new Constraint()\<close>\<close>

definition new_Constraint :: constraint where
  "new_Constraint =
     \<lparr>comparison = [], leftSide = \<lparr>terms = []\<rparr>, rightSide = \<lparr>terms = []\<rparr>,
      slackValue = 0, terms_c = []\<rparr>"

definition parse :: "(string \<Rightarrow> error + expression) \<Rightarrow> string \<Rightarrow> error + constraint" where
  "parse eparse str =
     (case parseToObject eparse str of
        Inl e \<Rightarrow> Inl e
      | Inr obj \<Rightarrow>
          Inr (new_Constraint\<lparr>comparison := comparison_p obj, leftSide := lhs obj,
                               rightSide := rhs obj\<rparr>))"

section \<open>The helpers getUniqueArray and areObjectsSame\<close>

text \<open>The names every object inherits from \<open>Object.prototype\<close>. Reading one of them from an
  object that does not own it gives a function or an object, which is truthy.\<close>

definition object_prototype_names :: "string list" where
  "object_prototype_names =
     [''constructor'', ''hasOwnProperty'', ''isPrototypeOf'', ''propertyIsEnumerable'',
      ''toLocaleString'', ''toString'', ''valueOf'', ''__defineGetter__'',
      ''__defineSetter__'', ''__lookupGetter__'', ''__lookupSetter__'', ''__proto__'']"

text \<open>The object \<open>hash\<close> of \<open>getUniqueArray\<close> is the list of the keys it has been given
  (each with the value 1); \<open>hash_truthy hash k\<close> is the truth value of \<open>hash[k]\<close>.\<close>

definition hash_truthy :: "string list \<Rightarrow> string \<Rightarrow> bool" where
  "hash_truthy hash k = (k \<in> set hash \<or> k \<in> set object_prototype_names)"

fun getUniqueArray_loop :: "string list \<Rightarrow> string list \<Rightarrow> string list \<Rightarrow> string list" where
  "getUniqueArray_loop [] result hash = result"
| "getUniqueArray_loop (x # arr) result hash =
     (if \<not> hash_truthy hash x
      then getUniqueArray_loop arr (result @ [x]) (x # hash)
      else getUniqueArray_loop arr result hash)"

definition getUniqueArray :: "string list \<Rightarrow> string list" where
  "getUniqueArray arr = (if arr = [] then [] else getUniqueArray_loop arr [] [])"

text \<open>Modelled from the spec: \<open>Expression.getTermNames()\<close>, which is not in the sources:
  "returns the de-duplicated, insertion-irrelevant set of term names present".\<close>

definition getTermNames_e :: "expression \<Rightarrow> string list" where
  "getTermNames_e e = remdups (map fst (terms e))"

definition getTermNames :: "constraint \<Rightarrow> string list" where
  "getTermNames c = getUniqueArray (getTermNames_e (leftSide c) @ getTermNames_e (rightSide c))"

text \<open>
  \<open>areObjectsSame\<close> walks arbitrary objects, so it is modelled on a type of JavaScript
  values. An object has an identity (its address, which \<open>===\<close> compares), the constructor
  that made it, and its own enumerable properties in enumeration order. \<open>JFunction\<close> is a
  function an object inherits from \<open>Object.prototype\<close>.
\<close>

datatype jsclass = Object_class | Expression_class | Constraint_class

datatype jsval =
    JUndefined
  | JNull
  | JNumber real
  | JString string
  | JFunction string
  | JObject nat jsclass "(string \<times> jsval) list"

datatype constructor = Number_ctor | String_ctor | Function_ctor | Class_ctor jsclass

text \<open>\<open>obj1 === obj2\<close>\<close>

fun strict_equal :: "jsval \<Rightarrow> jsval \<Rightarrow> bool" where
  "strict_equal JUndefined JUndefined = True"
| "strict_equal JNull JNull = True"
| "strict_equal (JNumber x) (JNumber y) = (x = y)"
| "strict_equal (JString s) (JString t) = (s = t)"
| "strict_equal (JFunction f) (JFunction g) = (f = g)"
| "strict_equal (JObject a c ps) (JObject b d qs) = (a = b)"
| "strict_equal v w = False"

text \<open>\<open>obj2.constructor\<close>, for the use \<open>instanceof\<close> makes of it. Reading it from
  \<open>undefined\<close> or \<open>null\<close> throws a TypeError (\<open>None\<close>). An object that owns a property
  named \<open>constructor\<close> gives that property's value, which is not a function, and
  \<open>instanceof\<close> throws a TypeError on it.\<close>

fun constructor_of :: "jsval \<Rightarrow> constructor option" where
  "constructor_of JUndefined = None"
| "constructor_of JNull = None"
| "constructor_of (JNumber x) = Some Number_ctor"
| "constructor_of (JString s) = Some String_ctor"
| "constructor_of (JFunction f) = Some Function_ctor"
| "constructor_of (JObject a c ps) =
     (if map_of ps ''constructor'' \<noteq> None then None else Some (Class_ctor c))"

text \<open>\<open>obj1 instanceof ctor\<close>: false for a primitive value; every object and function is an
  instance of \<open>Object\<close>.\<close>

fun instanceof :: "jsval \<Rightarrow> constructor \<Rightarrow> bool" where
  "instanceof (JObject a c ps) (Class_ctor d) = (c = d \<or> d = Object_class)"
| "instanceof (JFunction f) Function_ctor = True"
| "instanceof (JFunction f) (Class_ctor d) = (d = Object_class)"
| "instanceof v k = False"

text \<open>\<open>obj[prop]\<close>: the own property, else the member of \<open>Object.prototype\<close> of that name,
  else \<open>undefined\<close>. The accessor \<open>__proto__\<close> is read as such a member.\<close>

fun get_prop :: "jsval \<Rightarrow> string \<Rightarrow> jsval" where
  "get_prop (JObject a c ps) prop =
     (case map_of ps prop of
        Some v \<Rightarrow> v
      | None \<Rightarrow> if prop \<in> set object_prototype_names then JFunction prop else JUndefined)"
| "get_prop v prop = (if prop \<in> set object_prototype_names then JFunction prop else JUndefined)"

text \<open>\<open>typeof v === "object"\<close>\<close>

fun typeof_object :: "jsval \<Rightarrow> bool" where
  "typeof_object JNull = True"
| "typeof_object (JObject a c ps) = True"
| "typeof_object v = False"

text \<open>\<open>typeof a === typeof b\<close>\<close>

fun typeof :: "jsval \<Rightarrow> string" where
  "typeof JUndefined = ''undefined''"
| "typeof JNull = ''object''"
| "typeof (JNumber x) = ''number''"
| "typeof (JString s) = ''string''"
| "typeof (JFunction f) = ''function''"
| "typeof (JObject a c ps) = ''object''"

datatype js_error = TypeError

text \<open>\<open>v.toString()\<close>: a TypeError on \<open>undefined\<close> and \<open>null\<close>, and on an object that owns
  a property named \<open>toString\<close> (its value is not a function); the string itself for a
  string; the text a number, a function or another object gives is the parameter
  \<open>to_str\<close>.\<close>

fun toString :: "(jsval \<Rightarrow> string) \<Rightarrow> jsval \<Rightarrow> js_error + string" where
  "toString to_str JUndefined = Inl TypeError"
| "toString to_str JNull = Inl TypeError"
| "toString to_str (JString s) = Inr s"
| "toString to_str (JObject a c ps) =
     (if map_of ps ''toString'' \<noteq> None then Inl TypeError else Inr (to_str (JObject a c ps)))"
| "toString to_str v = Inr (to_str v)"

text \<open>\<open>areObjectsSame(obj1, obj2)\<close>; \<open>same_props\<close> is its loop \<open>for (var prop in obj1)\<close>
  over the own properties of \<open>obj1\<close> that are still to be visited (the test
  \<open>obj1.hasOwnProperty(prop)\<close> skips the inherited ones). When \<open>obj1\<close> owns a property
  named \<open>hasOwnProperty\<close>, that test calls its value, which is not a function, and throws
  a TypeError.\<close>

fun areObjectsSame :: "(jsval \<Rightarrow> string) \<Rightarrow> jsval \<Rightarrow> jsval \<Rightarrow> js_error + bool"
  and same_props :: "(jsval \<Rightarrow> string) \<Rightarrow> (string \<times> jsval) list \<Rightarrow> jsval \<Rightarrow> js_error + bool"
where
  "areObjectsSame to_str obj1 obj2 =
     (if strict_equal obj1 obj2 then Inr True
      else (case constructor_of obj2 of
              None \<Rightarrow> Inl TypeError
            | Some ctor \<Rightarrow>
                if \<not> instanceof obj1 ctor then Inr False
                else (case obj1 of
                        JObject adr cls props \<Rightarrow>
                          if map_of props ''hasOwnProperty'' \<noteq> None then Inl TypeError
                          else same_props to_str props obj2
                      | _ \<Rightarrow> Inr True)))"
| "same_props to_str [] obj2 = Inr True"
| "same_props to_str ((prop, a) # props) obj2 =
     (let b = get_prop obj2 prop
      in if typeof_object a
         then (if typeof a \<noteq> typeof b then Inr False
               else (case areObjectsSame to_str a b of
                       Inl e \<Rightarrow> Inl e
                     | Inr same \<Rightarrow> if \<not> same then Inr False else same_props to_str props obj2))
         else (case toString to_str a of
                 Inl e \<Rightarrow> Inl e
               | Inr sa \<Rightarrow>
                   (case toString to_str b of
                      Inl e \<Rightarrow> Inl e
                    | Inr sb \<Rightarrow> if sa \<noteq> sb then Inr False else same_props to_str props obj2)))"

text \<open>A Constraint and an Expression as JavaScript objects, allocated from the address
  \<open>adr\<close> on. A Constraint has the own properties its constructor sets, in that order. An
  Expression has the one property the specification gives it, \<open>terms\<close> (modelled from the
  spec: the constructor of Expression is not in the sources).\<close>

definition terms_object :: "nat \<Rightarrow> (string \<times> real) list \<Rightarrow> jsval" where
  "terms_object adr ts = JObject adr Object_class (map (\<lambda>(k, v). (k, JNumber v)) ts)"

definition expression_object :: "nat \<Rightarrow> expression \<Rightarrow> jsval" where
  "expression_object adr e =
     JObject adr Expression_class [(''terms'', terms_object (adr + 1) (terms e))]"

definition constraint_object :: "nat \<Rightarrow> constraint \<Rightarrow> jsval" where
  "constraint_object adr c =
     JObject adr Constraint_class
       [(''comparison'', JString (comparison c)),
        (''leftSide'', expression_object (adr + 1) (leftSide c)),
        (''rightSide'', expression_object (adr + 3) (rightSide c)),
        (''slackValue'', JNumber (slackValue c)),
        (''terms'', terms_object (adr + 5) (terms_c c))]"

text \<open>\<open>Constraint.equals = function (obj) { return mixin.areObjectsSame(this, obj); }\<close>,
  with the receiver \<open>this\<close> as its first argument.\<close>

definition equals :: "(jsval \<Rightarrow> string) \<Rightarrow> jsval \<Rightarrow> jsval \<Rightarrow> js_error + bool" where
  "equals to_str this obj = areObjectsSame to_str this obj"

section \<open>Notions the properties are stated with\<close>

text \<open>The meaning of a Constraint: the value of a side under an assignment \<open>\<rho>\<close> of the
  variables (the term \<open>"1"\<close> counts its coefficient), and whether the assignment satisfies
  the comparison.\<close>

definition term_value :: "(string \<Rightarrow> real) \<Rightarrow> string \<times> real \<Rightarrow> real" where
  "term_value \<rho> p = snd p * (if fst p = ''1'' then 1 else \<rho> (fst p))"

definition value_of :: "(string \<Rightarrow> real) \<Rightarrow> expression \<Rightarrow> real" where
  "value_of \<rho> e = sum_list (map (term_value \<rho>) (terms e))"

definition satisfies :: "(string \<Rightarrow> real) \<Rightarrow> constraint \<Rightarrow> bool" where
  "satisfies \<rho> c =
     (let l = value_of \<rho> (leftSide c); r = value_of \<rho> (rightSide c)
      in if comparison c = ''<'' then l < r
         else if comparison c = ''<='' then l \<le> r
         else if comparison c = ''>'' then l > r
         else if comparison c = ''>='' then l \<ge> r
         else comparison c = ''='' \<and> l = r)"

text \<open>Example constraints: the Constraints that \<open>x < 4\<close> and \<open>x > 4\<close> parse to.\<close>

definition example_lt :: constraint where
  "example_lt =
     \<lparr>comparison = ''<'', leftSide = \<lparr>terms = [(''x'', 1)]\<rparr>,
      rightSide = \<lparr>terms = [(''1'', 4)]\<rparr>, slackValue = 0, terms_c = []\<rparr>"

definition example_gt :: constraint where
  "example_gt =
     \<lparr>comparison = ''>'', leftSide = \<lparr>terms = [(''x'', 1)]\<rparr>,
      rightSide = \<lparr>terms = [(''1'', 4)]\<rparr>, slackValue = 0, terms_c = []\<rparr>"

text \<open>The Constraint that \<open>x < 20000000000\<close> parses to.\<close>

definition example_big :: constraint where
  "example_big =
     \<lparr>comparison = ''<'', leftSide = \<lparr>terms = [(''x'', 1)]\<rparr>,
      rightSide = \<lparr>terms = [(''1'', 20000000000)]\<rparr>, slackValue = 0, terms_c = []\<rparr>"

text \<open>The five comparison operators.\<close>

definition is_comparison :: "string \<Rightarrow> bool" where
  "is_comparison m = (m = ''<'' \<or> m = ''>'' \<or> m = ''<='' \<or> m = ''>='' \<or> m = ''='')"

text \<open>The term names an Expression has gained: those of \<open>after\<close> that \<open>before\<close> did not
  have.\<close>

definition new_term_names :: "expression \<Rightarrow> expression \<Rightarrow> string list" where
  "new_term_names before after = filter (\<lambda>k. \<not> hasTerm before k) (map fst (terms after))"

text \<open>An Expression parser for the examples: the few texts the examples below hand to
  \<open>Expression.parse\<close>, with the Expressions the grammar of section 4.1 gives them (a bare
  name has coefficient 1, a bare number is the constant term \<open>"1"\<close>). The sources do not
  decide what \<open>Expression.parse\<close> does with a blank text; this parser reads it as the
  Expression without terms.\<close>

definition example_parser :: "string \<Rightarrow> error + expression" where
  "example_parser text =
     (case map_of [(''0'', [(''1'', 0)]), (''x + y '', [(''x'', 1), (''y'', 1)]),
                   ('' 4'', [(''1'', 4)]), (''slack '', [(''slack'', 1)]),
                   (''a '', [(''a'', 1)]), ('' '', [])] text of
        Some ts \<Rightarrow> Inr \<lparr>terms = ts\<rparr>
      | None \<Rightarrow> Inl (Error ''not an example''))"

text \<open>The Constraints that \<open>x + y <= 4\<close>, \<open>x + y >= 4\<close>, \<open>x + 2y <= 5\<close> and \<open>slack <= 4\<close>
  parse to.\<close>

definition example_le :: constraint where
  "example_le =
     \<lparr>comparison = ''<='', leftSide = \<lparr>terms = [(''x'', 1), (''y'', 1)]\<rparr>,
      rightSide = \<lparr>terms = [(''1'', 4)]\<rparr>, slackValue = 0, terms_c = []\<rparr>"

definition example_ge :: constraint where
  "example_ge =
     \<lparr>comparison = ''>='', leftSide = \<lparr>terms = [(''x'', 1), (''y'', 1)]\<rparr>,
      rightSide = \<lparr>terms = [(''1'', 4)]\<rparr>, slackValue = 0, terms_c = []\<rparr>"

definition example_le2 :: constraint where
  "example_le2 =
     \<lparr>comparison = ''<='', leftSide = \<lparr>terms = [(''x'', 1), (''y'', 2)]\<rparr>,
      rightSide = \<lparr>terms = [(''1'', 5)]\<rparr>, slackValue = 0, terms_c = []\<rparr>"

definition example_slack :: constraint where
  "example_slack =
     \<lparr>comparison = ''<='', leftSide = \<lparr>terms = [(''slack'', 1)]\<rparr>,
      rightSide = \<lparr>terms = [(''1'', 4)]\<rparr>, slackValue = 0, terms_c = []\<rparr>"

text \<open>Two Constraints with a term literally named \<open>30\<close> beside the constant term, which
  is on the right side in the first and on the left side in the second.\<close>

definition example_30 :: constraint where
  "example_30 =
     \<lparr>comparison = ''='', leftSide = \<lparr>terms = [(''a'', 1)]\<rparr>,
      rightSide = \<lparr>terms = [(''cats'', 1), (''1'', 30), (''30'', 7)]\<rparr>, slackValue = 0, terms_c = []\<rparr>"

definition example_30_left :: constraint where
  "example_30_left =
     \<lparr>comparison = ''='', leftSide = \<lparr>terms = [(''a'', 1), (''1'', 30), (''30'', 7)]\<rparr>,
      rightSide = \<lparr>terms = [(''cats'', 1)]\<rparr>, slackValue = 0, terms_c = []\<rparr>"






text \<open>A \<open>+\<close> or \<open>-\<close> that lacks its right operand, in a text without white space: the
  operator is the last character, or the character after it is again one of \<open>+ - > < =\<close>.\<close>

definition operator_missing_operand :: "string \<Rightarrow> bool" where
  "operator_missing_operand t =
     (\<exists>i. i < length t \<and> (t ! i = CHR ''+'' \<or> t ! i = CHR ''-'') \<and>
          (Suc i = length t \<or> is_op (t ! Suc i)))"

text \<open>The first occurrence of each name of a list, in order, with the later duplicates
  removed.\<close>

primrec first_occurrences :: "string list \<Rightarrow> string list" where
  "first_occurrences [] = []"
| "first_occurrences (x # xs) = x # filter (\<lambda>y. y \<noteq> x) (first_occurrences xs)"

text \<open>A name that is also the name of a property inherited from \<open>Object.prototype\<close>.\<close>

definition inherited_name :: "string \<Rightarrow> bool" where
  "inherited_name n = (n \<in> set object_prototype_names)"

text \<open>A Constraint whose sides share names and use two inherited names as term names.\<close>

definition example_names :: constraint where
  "example_names =
     \<lparr>comparison = ''='',
      leftSide = \<lparr>terms = [(''a'', 1), (''toString'', 2), (''b'', 3)]\<rparr>,
      rightSide = \<lparr>terms = [(''b'', 1), (''constructor'', 1), (''a'', 2), (''1'', 30)]\<rparr>,
      slackValue = 0, terms_c = []\<rparr>"

text \<open>The Constraint that \<open>x <= 4\<close> parses to.\<close>

definition example_x_le :: constraint where
  "example_x_le =
     \<lparr>comparison = ''<='', leftSide = \<lparr>terms = [(''x'', 1)]\<rparr>,
      rightSide = \<lparr>terms = [(''1'', 4)]\<rparr>, slackValue = 0, terms_c = []\<rparr>"

section \<open>Properties\<close>

subsection \<open>Rounding to binary64\<close>

lemma round_half_even_of_int [simp]: "round_half_even (of_int n) = n"
  by (simp add: round_half_even_def)

lemma round_half_even_error: "\<bar>of_int (round_half_even r) - r\<bar> \<le> 1 / 2"
  unfolding round_half_even_def Let_def by (auto simp: abs_le_iff)

lemma round_half_even_numeral [simp]: "round_half_even (numeral n) = numeral n"
  using round_half_even_of_int [of "numeral n"] by simp

lemma round_half_even_neg_numeral [simp]: "round_half_even (- numeral n) = - numeral n"
  using round_half_even_of_int [of "- numeral n"] by simp

lemma ulp_exponent_eq:
  assumes "2 powi k \<le> \<bar>x\<bar>" and "\<bar>x\<bar> < 2 powi (k + 1)" and "- 1022 \<le> k"
  shows "ulp_exponent x = k - 52"
proof -
  have pos: "0 < \<bar>x\<bar>"
    using assms(1) by (smt (verit) zero_less_power_int)
  have "(2::real) powr real_of_int k = 2 powi k" "(2::real) powr real_of_int (k + 1) = 2 powi (k + 1)"
    by (rule powr_real_of_int'; simp)+
  with assms(1,2) have "2 powr real_of_int k \<le> \<bar>x\<bar> \<and> \<bar>x\<bar> < 2 powr (real_of_int k + 1)"
    by simp
  with pos have "\<lfloor>log 2 \<bar>x\<bar>\<rfloor> = k"
    by (simp add: floor_log_eq_powr_iff)
  with assms(3) show ?thesis
    by (simp add: ulp_exponent_def)
qed

lemma fl_eval:
  assumes "2 powi k \<le> \<bar>x\<bar>" and "\<bar>x\<bar> < 2 powi (k + 1)" and "- 1022 \<le> k"
  shows "fl x = of_int (round_half_even (x / 2 powi (k - 52))) * 2 powi (k - 52)"
proof -
  have "x \<noteq> 0"
    using assms(1) by (smt (verit) zero_less_power_int)
  then show ?thesis
    by (simp add: fl_def ulp_exponent_eq [OF assms])
qed

lemma fl_1: "fl 1 = 1"
  by (subst fl_eval [of 0]) (simp_all add: power_int_minus)


lemma ulp_exponent_le:
  assumes "x \<noteq> 0" and "\<bar>x\<bar> < 2 powi (k + 1)" and "- 1074 \<le> k - 52"
  shows "ulp_exponent x \<le> k - 52"
proof -
  have "(2::real) powr real_of_int (k + 1) = 2 powi (k + 1)"
    by (rule powr_real_of_int'; simp)
  with assms(2) have "\<bar>x\<bar> < 2 powr real_of_int (k + 1)" by simp
  with assms(1) have "log 2 \<bar>x\<bar> < real_of_int (k + 1)"
    by (simp add: log_less_iff)
  then have "\<lfloor>log 2 \<bar>x\<bar>\<rfloor> < k + 1"
    using floor_less_iff [of "log 2 \<bar>x\<bar>" "k + 1"] by blast
  with assms(3) show ?thesis
    by (simp add: ulp_exponent_def)
qed

lemma fl_error:
  "\<bar>fl x - x\<bar> \<le> 2 powi ulp_exponent x / 2"
proof (cases "x = 0")
  case True
  then show ?thesis by (simp add: fl_def)
next
  case False
  let ?u = "(2::real) powi ulp_exponent x"
  have u: "0 < ?u" by simp
  have "\<bar>of_int (round_half_even (x / ?u)) - x / ?u\<bar> \<le> 1 / 2"
    by (rule round_half_even_error)
  then have "\<bar>of_int (round_half_even (x / ?u)) - x / ?u\<bar> * ?u \<le> 1 / 2 * ?u"
    using u by (intro mult_right_mono) simp_all
  moreover have "\<bar>of_int (round_half_even (x / ?u)) - x / ?u\<bar> * ?u
      = \<bar>of_int (round_half_even (x / ?u)) * ?u - x\<bar>"
  proof -
    have "\<bar>of_int (round_half_even (x / ?u)) - x / ?u\<bar> * ?u
        = \<bar>(of_int (round_half_even (x / ?u)) - x / ?u) * ?u\<bar>"
      using u by (simp only: abs_mult abs_of_pos)
    also have "(of_int (round_half_even (x / ?u)) - x / ?u) * ?u
        = of_int (round_half_even (x / ?u)) * ?u - x"
      using u by (simp add: left_diff_distrib)
    finally show ?thesis .
  qed
  ultimately show ?thesis
    using False by (simp add: fl_def)
qed

lemma fl_representable:
  assumes "\<bar>m\<bar> < 2 ^ 53" and "- 1074 \<le> e"
  shows "fl (of_int m * 2 powi e) = of_int m * 2 powi e"
proof (cases "m = 0")
  case True
  then show ?thesis by (simp add: fl_def)
next
  case False
  let ?x = "of_int m * (2::real) powi e"
  have x0: "?x \<noteq> 0" using False by simp
  have "\<bar>?x\<bar> = \<bar>of_int m\<bar> * 2 powi e"
    by (simp add: abs_mult)
  also have "\<dots> < 2 ^ 53 * 2 powi e"
  proof -
    have "\<bar>real_of_int m\<bar> < 2 ^ 53"
      using assms(1) by (metis of_int_abs of_int_less_numeral_power_cancel_iff)
    then show ?thesis by (intro mult_strict_right_mono) simp_all
  qed
  also have "\<dots> = 2 powi (e + 52 + 1)"
    by (simp add: power_int_add)
  finally have lt: "\<bar>?x\<bar> < 2 powi (e + 52 + 1)" .
  have le: "ulp_exponent ?x \<le> e"
    using ulp_exponent_le [OF x0 lt] assms(2) by simp
  define E where "E = ulp_exponent ?x"
  define d where "d = nat (e - E)"
  have e: "e = E + int d"
    using le by (simp add: d_def E_def)
  have p: "(2::real) powi e = 2 powi E * 2 ^ d"
    by (subst e) (simp add: power_int_add)
  have "?x / 2 powi E = of_int m * (2 powi E * 2 ^ d) / 2 powi E"
    by (simp only: p)
  also have "\<dots> = of_int (m * 2 ^ d)"
    by simp
  finally have q: "?x / 2 powi E = of_int (m * 2 ^ d)" .
  have "fl ?x = of_int (round_half_even (?x / 2 powi E)) * 2 powi E"
    using x0 by (simp add: fl_def E_def)
  also have "\<dots> = of_int (m * 2 ^ d) * 2 powi E"
    by (simp only: q round_half_even_of_int)
  also have "\<dots> = of_int m * (2 powi E * 2 ^ d)"
    by simp
  also have "\<dots> = ?x"
    by (simp only: p)
  finally show ?thesis .
qed

lemma fl_of_int:
  assumes "\<bar>m\<bar> < 2 ^ 53"
  shows "fl (of_int m) = of_int m"
  using fl_representable [OF assms, of 0] by simp

lemma fl_4: "fl 4 = 4" and fl_30: "fl (- 30) = - 30" and fl_2: "fl 2 = 2"
  and fl_minus_1: "fl (- 1) = - 1"
  using fl_of_int [of 4] fl_of_int [of "- 30"] fl_of_int [of 2] fl_of_int [of "- 1"]
  by simp_all


lemma fl_binary64: "binary64 v \<Longrightarrow> fl v = v"
  unfolding binary64_def using fl_representable by blast

lemma binary64_minus: "binary64 v \<Longrightarrow> binary64 (- v)"
  unfolding binary64_def
proof (elim exE conjE)
  fix m e
  assume "\<bar>m\<bar> < 2 ^ 53" "- 1074 \<le> e" "e \<le> 971" "v = of_int m * 2 powi e"
  then show "\<exists>m e. \<bar>m\<bar> < 2 ^ 53 \<and> - 1074 \<le> e \<and> e \<le> 971 \<and> - v = of_int m * 2 powi e"
    by (intro exI [of _ "- m"] exI [of _ e]) simp
qed

lemma js_mul_minus_1: "binary64 v \<Longrightarrow> js_mul v (- 1) = - v"
  using fl_binary64 [OF binary64_minus] by (simp add: js_mul_def)

lemma EPSILON_value: "EPSILON = 4722366482869645 / 2 ^ 72"
proof -
  have "fl (1 / 1000000)
      = of_int (round_half_even ((1 / 1000000) / 2 powi (- 20 - 52))) * 2 powi (- 20 - 52)"
    by (rule fl_eval) (simp_all add: power_int_minus field_simps)
  moreover have "round_half_even ((1 / 1000000) / 2 powi (- 20 - 52)) = 4722366482869645"
  proof -
    have "\<lfloor>(1 / 1000000) / 2 powi (- 20 - 52) :: real\<rfloor> = 4722366482869645"
      by (simp add: power_int_minus floor_eq_iff field_simps)
    then show ?thesis
      by (simp add: round_half_even_def Let_def)
  qed
  ultimately show ?thesis
    by (simp add: EPSILON_def power_int_minus field_simps)
qed

lemma EPSILON_representable: "EPSILON = of_int 4722366482869645 * 2 powi (- 72)"
  by (simp add: EPSILON_value power_int_minus field_simps)

lemma binary64_EPSILON: "binary64 EPSILON"
  unfolding binary64_def
  by (intro exI [of _ 4722366482869645] exI [of _ "- 72"] conjI)
     (simp, simp, simp, rule EPSILON_representable)

lemma js_mul_EPSILON: "js_mul EPSILON 1 = EPSILON" "js_mul EPSILON (- 1) = - EPSILON"
  using fl_binary64 [OF binary64_EPSILON] js_mul_minus_1 [OF binary64_EPSILON]
  by (simp_all add: js_mul_def)

lemma EPSILON_bounds: "1 / 2 ^ 20 < EPSILON" "EPSILON < 1 / 2 ^ 19"
  by (simp_all add: EPSILON_value)

lemma binary64_of_int: "\<bar>m\<bar> < 2 ^ 53 \<Longrightarrow> binary64 (of_int m)"
  unfolding binary64_def by (intro exI [of _ m] exI [of _ 0]) simp

lemma js_add_0_left: "js_add 0 v = fl v"
  by (simp add: js_add_def)

lemma fl_small_step_down:
  assumes "\<bar>c - EPSILON\<bar> < 2 ^ 34"
  shows "fl (c - EPSILON) < c"
proof (cases "c - EPSILON = 0")
  case True
  then show ?thesis using EPSILON_bounds(1) by (simp add: fl_def)
next
  case False
  have "ulp_exponent (c - EPSILON) \<le> 33 - 52"
    using assms by (intro ulp_exponent_le [OF False]) simp_all
  then have "(2::real) powi ulp_exponent (c - EPSILON) \<le> 2 powi (- 19)"
    by (intro power_int_increasing) simp_all
  then have "2 powi ulp_exponent (c - EPSILON) / 2 \<le> (1 / 2 ^ 20 :: real)"
    by (simp add: power_int_minus field_simps)
  with fl_error [of "c - EPSILON"] have "\<bar>fl (c - EPSILON) - (c - EPSILON)\<bar> \<le> 1 / 2 ^ 20"
    by linarith
  with EPSILON_bounds(1) show ?thesis
    by linarith
qed

lemma fl_small_step_up:
  assumes "\<bar>c + EPSILON\<bar> < 2 ^ 34"
  shows "c < fl (c + EPSILON)"
proof (cases "c + EPSILON = 0")
  case True
  then show ?thesis using EPSILON_bounds(1) by (simp add: fl_def)
next
  case False
  have "ulp_exponent (c + EPSILON) \<le> 33 - 52"
    using assms by (intro ulp_exponent_le [OF False]) simp_all
  then have "(2::real) powi ulp_exponent (c + EPSILON) \<le> 2 powi (- 19)"
    by (intro power_int_increasing) simp_all
  then have "2 powi ulp_exponent (c + EPSILON) / 2 \<le> (1 / 2 ^ 20 :: real)"
    by (simp add: power_int_minus field_simps)
  with fl_error [of "c + EPSILON"] have "\<bar>fl (c + EPSILON) - (c + EPSILON)\<bar> \<le> 1 / 2 ^ 20"
    by linarith
  with EPSILON_bounds(1) show ?thesis
    by linarith
qed

lemma fl_absorbed_down: "fl (20000000000 - EPSILON) = 20000000000"
proof -
  have "fl (20000000000 - EPSILON)
      = of_int (round_half_even ((20000000000 - EPSILON) / 2 powi (34 - 52))) * 2 powi (34 - 52)"
    by (rule fl_eval) (simp_all add: EPSILON_value)
  moreover have "round_half_even ((20000000000 - EPSILON) / 2 powi (34 - 52)) = 5242880000000000"
  proof -
    have "\<lfloor>(20000000000 - EPSILON) / 2 powi (34 - 52)\<rfloor> = 5242879999999999"
      by (simp add: EPSILON_value power_int_minus floor_eq_iff field_simps)
    then show ?thesis
      by (simp add: round_half_even_def Let_def) (simp add: EPSILON_value power_int_minus field_simps)
  qed
  ultimately show ?thesis
    by (simp add: power_int_minus)
qed

lemma fl_absorbed_up: "fl (20000000000 + EPSILON) = 20000000000"
proof -
  have "fl (20000000000 + EPSILON)
      = of_int (round_half_even ((20000000000 + EPSILON) / 2 powi (34 - 52))) * 2 powi (34 - 52)"
    by (rule fl_eval) (simp_all add: EPSILON_value)
  moreover have "round_half_even ((20000000000 + EPSILON) / 2 powi (34 - 52)) = 5242880000000000"
  proof -
    have "\<lfloor>(20000000000 + EPSILON) / 2 powi (34 - 52)\<rfloor> = 5242880000000000"
      by (simp add: EPSILON_value power_int_minus floor_eq_iff field_simps)
    then show ?thesis
      by (simp add: round_half_even_def Let_def) (simp add: EPSILON_value power_int_minus field_simps)
  qed
  ultimately show ?thesis
    by (simp add: power_int_minus)
qed

lemma fl_4_minus: "fl (4 - EPSILON) = 9007197002941178 / 2 ^ 51"
proof -
  have "fl (4 - EPSILON)
      = of_int (round_half_even ((4 - EPSILON) / 2 powi (1 - 52))) * 2 powi (1 - 52)"
    by (rule fl_eval) (simp_all add: EPSILON_value)
  moreover have "round_half_even ((4 - EPSILON) / 2 powi (1 - 52)) = 9007197002941178"
  proof -
    have "\<lfloor>(4 - EPSILON) / 2 powi (1 - 52)\<rfloor> = 9007197002941178"
      by (simp add: EPSILON_value power_int_minus floor_eq_iff field_simps)
    then show ?thesis
      by (simp add: round_half_even_def Let_def) (simp add: EPSILON_value power_int_minus field_simps)
  qed
  ultimately show ?thesis
    by (simp add: power_int_minus)
qed

lemma fl_4_plus: "fl (4 + EPSILON) = 4503600753270403 / 2 ^ 50"
proof -
  have "fl (4 + EPSILON)
      = of_int (round_half_even ((4 + EPSILON) / 2 powi (2 - 52))) * 2 powi (2 - 52)"
    by (rule fl_eval) (simp_all add: EPSILON_value)
  moreover have "round_half_even ((4 + EPSILON) / 2 powi (2 - 52)) = 4503600753270403"
  proof -
    have "\<lfloor>(4 + EPSILON) / 2 powi (2 - 52)\<rfloor> = 4503600753270402"
      by (simp add: EPSILON_value power_int_minus floor_eq_iff field_simps)
    then show ?thesis
      by (simp add: round_half_even_def Let_def) (simp add: EPSILON_value power_int_minus field_simps)
  qed
  ultimately show ?thesis
    by (simp add: power_int_minus)
qed

subsection \<open>Terms of an Expression\<close>

lemma set_term_keys: "fst ` set (set_term n v ts) = insert n (fst ` set ts)"
  by (induction n v ts rule: set_term.induct) auto

lemma map_of_set_term: "map_of (set_term n v ts) = (map_of ts)(n \<mapsto> v)"
  by (induction n v ts rule: set_term.induct) (auto simp: fun_eq_iff)

lemma terms_removeTerm: "terms (removeTerm a n) = filter (\<lambda>p. fst p \<noteq> n) (terms a)"
  by (simp add: removeTerm_def case_prod_unfold)

lemma keys_addTerm: "fst ` set (terms (addTerm b n v)) = insert n (fst ` set (terms b))"
  by (simp add: addTerm_def set_term_keys)

lemma getTermValue_addTerm:
  "getTermValue (addTerm e n v) k =
     (if k = n then js_add (getTermValue e n) v else getTermValue e k)"
  by (simp add: getTermValue_def addTerm_def map_of_set_term)

lemma map_of_addTerm_other:
  "k \<noteq> n \<Longrightarrow> map_of (terms (addTerm e n v)) k = map_of (terms e) k"
  by (simp add: addTerm_def map_of_set_term)

lemma sum_set_term:
  "sum_list (map (term_value \<rho>) (set_term n x ts)) =
     sum_list (map (term_value \<rho>) ts)
       + term_value \<rho> (n, x - (case map_of ts n of None \<Rightarrow> 0 | Some w \<Rightarrow> w))"
  by (induction n x ts rule: set_term.induct) (auto simp: term_value_def algebra_simps)

lemma value_of_addTerm:
  "value_of \<rho> (addTerm e n v) =
     value_of \<rho> e + term_value \<rho> (n, js_add (getTermValue e n) v - getTermValue e n)"
  by (simp add: value_of_def addTerm_def sum_set_term getTermValue_def)

lemma forEachConstant_empty_iff: "forEachConstant e = [] \<longleftrightarrow> ''1'' \<notin> fst ` set (terms e)"
  by (auto simp: forEachConstant_def filter_empty_conv image_iff)

lemma forEachVariable_empty_iff: "forEachVariable e = [] \<longleftrightarrow> fst ` set (terms e) \<subseteq> {''1''}"
  by (auto simp: forEachVariable_def filter_empty_conv image_iff)

lemma keys_forEachVariable: "fst ` set (forEachVariable e) = fst ` set (terms e) - {''1''}"
  by (auto simp: forEachVariable_def image_iff)

lemma keys_forEachConstant: "fst ` set (forEachConstant e) = fst ` set (terms e) \<inter> {''1''}"
  by (auto simp: forEachConstant_def image_iff)

lemma inverse_e_twice: "inverse_e (inverse_e e) = e"
  by (simp add: inverse_e_def comp_def case_prod_beta)

lemma inverse_e_scale:
  assumes "list_all (\<lambda>p. binary64 (snd p)) (terms e)"
  shows "scale_e e (- 1) = inverse_e e"
proof -
  have "map (\<lambda>(k, v). (k, js_mul v (- 1))) ts = map (\<lambda>(k, v). (k, - v)) ts"
    if "list_all (\<lambda>p. binary64 (snd p)) ts" for ts :: "(string \<times> real) list"
    using that by (induction ts) (auto simp: js_mul_minus_1)
  with assms show ?thesis
    by (simp add: scale_e_def inverse_e_def)
qed

subsection \<open>Moving terms between the sides\<close>

lemma switch_term_pair: "switch_term (n, v) (a, b) = (removeTerm a n, addTerm b n (- v))"
  by (simp add: switch_term_def)

lemma fold_switch_fst:
  "terms (fst (fold switch_term ps (a, b))) = filter (\<lambda>p. fst p \<notin> fst ` set ps) (terms a)"
proof (induction ps arbitrary: a b)
  case Nil
  then show ?case by simp
next
  case (Cons p ps)
  obtain n v where p: "p = (n, v)" by (cases p)
  show ?case
    by (simp add: p switch_term_pair Cons.IH terms_removeTerm conj_commute)
qed

lemma fold_switch_snd_keys:
  "fst ` set (terms (snd (fold switch_term ps (a, b)))) = fst ` set (terms b) \<union> fst ` set ps"
proof (induction ps arbitrary: a b)
  case Nil
  then show ?case by simp
next
  case (Cons p ps)
  obtain n v where p: "p = (n, v)" by (cases p)
  show ?case
    by (simp add: p switch_term_pair Cons.IH keys_addTerm)
qed

lemma switchSides_variables_fst:
  "fst ` set (terms (fst (switchSides a b forEachVariable))) \<subseteq> {''1''}"
  by (auto simp: switchSides_def fold_switch_fst keys_forEachVariable)

lemma switchSides_constants_fst:
  "''1'' \<notin> fst ` set (terms (fst (switchSides a b forEachConstant)))"
  by (auto simp: switchSides_def fold_switch_fst keys_forEachConstant)

lemma switchSides_constants_snd:
  "fst ` set (terms (snd (switchSides a b forEachConstant))) \<subseteq> fst ` set (terms b) \<union> {''1''}"
  by (auto simp: switchSides_def fold_switch_snd_keys keys_forEachConstant)

lemma switchSides_nothing: "f a = [] \<Longrightarrow> switchSides a b f = (a, b)"
  by (simp add: switchSides_def)

lemma moveType_left_right:
  "moveTypeToOneSide ''left'' ''right'' c =
     (let r1 = switchSides (rightSide c) (leftSide c) forEachVariable;
          r2 = switchSides (snd r1) (fst r1) forEachConstant
      in c\<lparr>leftSide := fst r2, rightSide := snd r2\<rparr>)"
  by (simp add: moveTypeToOneSide_def test_left_or_right_def getSwappedSides_def put_sides_def Let_def)

lemma moveType_left_no_constant:
  "forEachConstant (leftSide (moveTypeToOneSide ''left'' ''right'' c)) = []"
  by (simp add: moveType_left_right Let_def forEachConstant_empty_iff switchSides_constants_fst)

lemma moveType_right_no_variable:
  "forEachVariable (rightSide (moveTypeToOneSide ''left'' ''right'' c)) = []"
proof -
  let ?r1 = "switchSides (rightSide c) (leftSide c) forEachVariable"
  have "fst ` set (terms (snd (switchSides (snd ?r1) (fst ?r1) forEachConstant)))
          \<subseteq> fst ` set (terms (fst ?r1)) \<union> {''1''}"
    by (rule switchSides_constants_snd)
  also have "\<dots> \<subseteq> {''1''}"
    using switchSides_variables_fst [of "rightSide c" "leftSide c"] by blast
  finally show ?thesis
    by (simp add: moveType_left_right Let_def forEachVariable_empty_iff)
qed

lemma moveType_comparison: "comparison (moveTypeToOneSide l r c) = comparison c"
  by (simp add: moveTypeToOneSide_def put_sides_def Let_def)

lemma moveType_slackValue: "slackValue (moveTypeToOneSide l r c) = slackValue c"
  by (simp add: moveTypeToOneSide_def put_sides_def Let_def)

lemma moveType_fixed:
  assumes "forEachVariable (rightSide c) = []" and "forEachConstant (leftSide c) = []"
  shows "moveTypeToOneSide ''left'' ''right'' c = c"
  using assms by (simp add: moveType_left_right Let_def switchSides_nothing)

subsection \<open>Strict comparisons\<close>

lemma removeStrict_lt:
  assumes "comparison c = ''<''"
  shows "removeStrictInEquality c =
    c\<lparr>comparison := ''<='', rightSide := addTerm (rightSide c) ''1'' (- EPSILON)\<rparr>"
  using assms by (simp add: removeStrictInEquality_def js_mul_EPSILON)

lemma removeStrict_gt:
  assumes "comparison c = ''>''"
  shows "removeStrictInEquality c =
    c\<lparr>comparison := ''>='', rightSide := addTerm (rightSide c) ''1'' EPSILON\<rparr>"
  using assms by (simp add: removeStrictInEquality_def js_mul_EPSILON)

lemma removeStrict_not_strict:
  "comparison (removeStrictInEquality c) \<noteq> ''<'' \<and> comparison (removeStrictInEquality c) \<noteq> ''>''"
  by (simp add: removeStrictInEquality_def Let_def)

lemma removeStrict_fixed:
  "comparison c \<noteq> ''<'' \<Longrightarrow> comparison c \<noteq> ''>'' \<Longrightarrow> removeStrictInEquality c = c"
  by (simp add: removeStrictInEquality_def)

text \<open>
  Claim C3, as amended. For a Constraint whose comparison is the strict \<open><\<close>
  (respectively \<open>>\<close>), \<open>removeStrictInEquality\<close> changes the comparison to \<open><=\<close>
  (respectively \<open>>=\<close>) and adds \<open>-1e-6\<close> (respectively \<open>+1e-6\<close>) to the constant term \<open>"1"\<close>
  of the right side as numbers are added: the new constant is the binary64 number nearest
  to the exact sum. Nothing else changes. When the exact sum is below \<open>2^34\<close> in
  magnitude, the new constant is smaller (respectively larger) than the old one; and
  whenever it is, every assignment that satisfies the resulting non-strict constraint
  satisfies the original strict one. For any other comparison the Constraint is
  unchanged.
\<close>

theorem removeStrictInEquality_relaxes:
  "(comparison c = ''<'' \<longrightarrow>
      comparison (removeStrictInEquality c) = ''<='' \<and>
      getTermValue (rightSide (removeStrictInEquality c)) ''1''
        = js_add (getTermValue (rightSide c) ''1'') (- EPSILON) \<and>
      (\<forall>k. k \<noteq> ''1'' \<longrightarrow>
         map_of (terms (rightSide (removeStrictInEquality c))) k = map_of (terms (rightSide c)) k) \<and>
      leftSide (removeStrictInEquality c) = leftSide c \<and>
      slackValue (removeStrictInEquality c) = slackValue c \<and>
      (\<bar>getTermValue (rightSide c) ''1'' - EPSILON\<bar> < 2 ^ 34 \<longrightarrow>
         getTermValue (rightSide (removeStrictInEquality c)) ''1'' < getTermValue (rightSide c) ''1'') \<and>
      (getTermValue (rightSide (removeStrictInEquality c)) ''1'' < getTermValue (rightSide c) ''1'' \<longrightarrow>
         (\<forall>\<rho>. satisfies \<rho> (removeStrictInEquality c) \<longrightarrow> satisfies \<rho> c))) \<and>
   (comparison c = ''>'' \<longrightarrow>
      comparison (removeStrictInEquality c) = ''>='' \<and>
      getTermValue (rightSide (removeStrictInEquality c)) ''1''
        = js_add (getTermValue (rightSide c) ''1'') EPSILON \<and>
      (\<forall>k. k \<noteq> ''1'' \<longrightarrow>
         map_of (terms (rightSide (removeStrictInEquality c))) k = map_of (terms (rightSide c)) k) \<and>
      leftSide (removeStrictInEquality c) = leftSide c \<and>
      slackValue (removeStrictInEquality c) = slackValue c \<and>
      (\<bar>getTermValue (rightSide c) ''1'' + EPSILON\<bar> < 2 ^ 34 \<longrightarrow>
         getTermValue (rightSide c) ''1'' < getTermValue (rightSide (removeStrictInEquality c)) ''1'') \<and>
      (getTermValue (rightSide c) ''1'' < getTermValue (rightSide (removeStrictInEquality c)) ''1'' \<longrightarrow>
         (\<forall>\<rho>. satisfies \<rho> (removeStrictInEquality c) \<longrightarrow> satisfies \<rho> c))) \<and>
   (comparison c \<noteq> ''<'' \<and> comparison c \<noteq> ''>'' \<longrightarrow> removeStrictInEquality c = c)"
proof (intro conjI impI)
  assume lt: "comparison c = ''<''"
  note r = removeStrict_lt [OF lt]
  show "comparison (removeStrictInEquality c) = ''<=''" by (simp add: r)
  show v: "getTermValue (rightSide (removeStrictInEquality c)) ''1''
        = js_add (getTermValue (rightSide c) ''1'') (- EPSILON)"
    by (simp add: r getTermValue_addTerm)
  show "\<forall>k. k \<noteq> ''1'' \<longrightarrow>
         map_of (terms (rightSide (removeStrictInEquality c))) k = map_of (terms (rightSide c)) k"
    by (simp add: r map_of_addTerm_other)
  show "leftSide (removeStrictInEquality c) = leftSide c" by (simp add: r)
  show "slackValue (removeStrictInEquality c) = slackValue c" by (simp add: r)
  show "getTermValue (rightSide (removeStrictInEquality c)) ''1'' < getTermValue (rightSide c) ''1''"
    if "\<bar>getTermValue (rightSide c) ''1'' - EPSILON\<bar> < 2 ^ 34"
    using fl_small_step_down [OF that] by (simp add: v js_add_def)
  show "\<forall>\<rho>. satisfies \<rho> (removeStrictInEquality c) \<longrightarrow> satisfies \<rho> c"
    if "getTermValue (rightSide (removeStrictInEquality c)) ''1'' < getTermValue (rightSide c) ''1''"
    using that unfolding v
    by (simp add: r satisfies_def lt value_of_addTerm term_value_def)
next
  assume gt: "comparison c = ''>''"
  note r = removeStrict_gt [OF gt]
  show "comparison (removeStrictInEquality c) = ''>=''" by (simp add: r)
  show v: "getTermValue (rightSide (removeStrictInEquality c)) ''1''
        = js_add (getTermValue (rightSide c) ''1'') EPSILON"
    by (simp add: r getTermValue_addTerm)
  show "\<forall>k. k \<noteq> ''1'' \<longrightarrow>
         map_of (terms (rightSide (removeStrictInEquality c))) k = map_of (terms (rightSide c)) k"
    by (simp add: r map_of_addTerm_other)
  show "leftSide (removeStrictInEquality c) = leftSide c" by (simp add: r)
  show "slackValue (removeStrictInEquality c) = slackValue c" by (simp add: r)
  show "getTermValue (rightSide c) ''1'' < getTermValue (rightSide (removeStrictInEquality c)) ''1''"
    if "\<bar>getTermValue (rightSide c) ''1'' + EPSILON\<bar> < 2 ^ 34"
    using fl_small_step_up [OF that] by (simp add: v js_add_def)
  show "\<forall>\<rho>. satisfies \<rho> (removeStrictInEquality c) \<longrightarrow> satisfies \<rho> c"
    if "getTermValue (rightSide c) ''1'' < getTermValue (rightSide (removeStrictInEquality c)) ''1''"
    using that unfolding v
    by (simp add: r satisfies_def gt value_of_addTerm term_value_def)
next
  assume "comparison c \<noteq> ''<'' \<and> comparison c \<noteq> ''>''"
  then show "removeStrictInEquality c = c"
    by (simp add: removeStrictInEquality_def)
qed

lemma example_lt_strict:
  "removeStrictInEquality example_lt =
    example_lt\<lparr>comparison := ''<='',
               rightSide := \<lparr>terms = [(''1'', 9007197002941178 / 2 ^ 51)]\<rparr>\<rparr>"
  by (simp add: removeStrict_lt example_lt_def addTerm_def getTermValue_def js_add_def fl_4_minus)

lemma example_gt_strict:
  "removeStrictInEquality example_gt =
    example_gt\<lparr>comparison := ''>='',
               rightSide := \<lparr>terms = [(''1'', 4503600753270403 / 2 ^ 50)]\<rparr>\<rparr>"
  by (simp add: removeStrict_gt example_gt_def addTerm_def getTermValue_def js_add_def fl_4_plus)

text \<open>On \<open>x < 4\<close> and \<open>x > 4\<close>: the constants become the numbers \<open>3.999999\<close> and
  \<open>4.000001\<close> denote, and \<open>x = 3\<close> (respectively \<open>x = 5\<close>) satisfies both the relaxed and
  the strict constraint.\<close>

theorem removeStrictInEquality_relaxes_witness:
  "comparison example_lt = ''<'' \<and>
   \<bar>getTermValue (rightSide example_lt) ''1'' - EPSILON\<bar> < 2 ^ 34 \<and>
   comparison (removeStrictInEquality example_lt) = ''<='' \<and>
   getTermValue (rightSide (removeStrictInEquality example_lt)) ''1'' = 9007197002941178 / 2 ^ 51 \<and>
   getTermValue (rightSide (removeStrictInEquality example_lt)) ''1'' < 4 \<and>
   satisfies (\<lambda>v. 3) (removeStrictInEquality example_lt) \<and> satisfies (\<lambda>v. 3) example_lt \<and>
   comparison example_gt = ''>'' \<and>
   \<bar>getTermValue (rightSide example_gt) ''1'' + EPSILON\<bar> < 2 ^ 34 \<and>
   comparison (removeStrictInEquality example_gt) = ''>='' \<and>
   getTermValue (rightSide (removeStrictInEquality example_gt)) ''1'' = 4503600753270403 / 2 ^ 50 \<and>
   4 < getTermValue (rightSide (removeStrictInEquality example_gt)) ''1'' \<and>
   satisfies (\<lambda>v. 5) (removeStrictInEquality example_gt) \<and> satisfies (\<lambda>v. 5) example_gt \<and>
   removeStrictInEquality (removeStrictInEquality example_lt) = removeStrictInEquality example_lt"
proof -
  have lt: "comparison example_lt = ''<''" and gt: "comparison example_gt = ''>''"
    by (simp_all add: example_lt_def example_gt_def)
  have v: "getTermValue (rightSide example_lt) ''1'' = 4" "getTermValue (rightSide example_gt) ''1'' = 4"
    by (simp_all add: example_lt_def example_gt_def getTermValue_def)
  have small: "\<bar>getTermValue (rightSide example_lt) ''1'' - EPSILON\<bar> < 2 ^ 34"
    "\<bar>getTermValue (rightSide example_gt) ''1'' + EPSILON\<bar> < 2 ^ 34"
    unfolding v by (simp_all add: EPSILON_value)
  have w: "getTermValue (rightSide (removeStrictInEquality example_lt)) ''1'' = 9007197002941178 / 2 ^ 51"
    "getTermValue (rightSide (removeStrictInEquality example_gt)) ''1'' = 4503600753270403 / 2 ^ 50"
    unfolding example_lt_strict example_gt_strict by (simp_all add: getTermValue_def)
  have s: "satisfies (\<lambda>v. 3) (removeStrictInEquality example_lt)"
    "satisfies (\<lambda>v. 5) (removeStrictInEquality example_gt)"
    unfolding example_lt_strict example_gt_strict
    by (simp_all add: example_lt_def example_gt_def satisfies_def value_of_def term_value_def)
  have n: "comparison (removeStrictInEquality example_lt) \<noteq> ''<''"
    "comparison (removeStrictInEquality example_lt) \<noteq> ''>''"
    unfolding example_lt_strict by simp_all
  from removeStrictInEquality_relaxes [of example_lt] lt small(1)
  have a: "comparison (removeStrictInEquality example_lt) = ''<=''"
    "getTermValue (rightSide (removeStrictInEquality example_lt)) ''1''
       < getTermValue (rightSide example_lt) ''1''"
    by blast+
  from removeStrictInEquality_relaxes [of example_lt] lt a(2)
  have a': "satisfies (\<lambda>v. 3) (removeStrictInEquality example_lt) \<longrightarrow> satisfies (\<lambda>v. 3) example_lt"
    by blast
  from removeStrictInEquality_relaxes [of example_gt] gt small(2)
  have b: "comparison (removeStrictInEquality example_gt) = ''>=''"
    "getTermValue (rightSide example_gt) ''1''
       < getTermValue (rightSide (removeStrictInEquality example_gt)) ''1''"
    by blast+
  from removeStrictInEquality_relaxes [of example_gt] gt b(2)
  have b': "satisfies (\<lambda>v. 5) (removeStrictInEquality example_gt) \<longrightarrow> satisfies (\<lambda>v. 5) example_gt"
    by blast
  from removeStrictInEquality_relaxes [of "removeStrictInEquality example_lt"] n
  have c: "removeStrictInEquality (removeStrictInEquality example_lt) = removeStrictInEquality example_lt"
    by blast
  show ?thesis
    using lt gt small a b a' b' c s w by (simp add: v)
qed

lemma example_big_strict:
  "removeStrictInEquality example_big =
    example_big\<lparr>comparison := ''<='', rightSide := \<lparr>terms = [(''1'', 20000000000)]\<rparr>\<rparr>"
  by (simp add: removeStrict_lt example_big_def addTerm_def getTermValue_def js_add_def
      fl_absorbed_down)

text \<open>The claim as first stated fails on \<open>x < 20000000000\<close>: the sum
  \<open>20000000000 + -1e-6\<close> rounds back to \<open>20000000000\<close>, so the constant is unchanged, and
  \<open>x = 20000000000\<close> satisfies the resulting \<open>x <= 20000000000\<close> but not the strict
  constraint.\<close>

theorem strict_relaxation_counterexample:
  "comparison example_big = ''<'' \<and>
   getTermValue (rightSide example_big) ''1'' = 20000000000 \<and>
   comparison (removeStrictInEquality example_big) = ''<='' \<and>
   getTermValue (rightSide (removeStrictInEquality example_big)) ''1'' = 20000000000 \<and>
   satisfies (\<lambda>v. 20000000000) (removeStrictInEquality example_big) \<and>
   \<not> satisfies (\<lambda>v. 20000000000) example_big"
  unfolding example_big_strict
  by (simp add: example_big_def getTermValue_def satisfies_def value_of_def term_value_def)

subsection \<open>Negating a comparison\<close>

lemma inverse_c_twice: "inverse_c (inverse_c c) = c"
  by (simp add: inverse_c_def inverse_e_twice)

lemma inverse_c_comparison: "inverse_c (c\<lparr>comparison := x\<rparr>) = (inverse_c c)\<lparr>comparison := x\<rparr>"
  by (simp add: inverse_c_def)

text \<open>
  Claim C4. For a Constraint whose comparison is one of \<open><\<close>, \<open>>\<close>, \<open><=\<close>, \<open>>=\<close>, \<open>=\<close>,
  applying \<open>negateComparison\<close> twice gives back the Constraint it started from: the
  original comparison and the original coefficients on both sides.
\<close>

theorem negateComparison_involution:
  assumes "comparison c \<in> {''<'', ''>'', ''<='', ''>='', ''=''}"
  shows "negateComparison (negateComparison c) = c"
proof -
  consider "comparison c = ''<''" | "comparison c = ''>''" | "comparison c = ''<=''"
    | "comparison c = ''>=''" | "comparison c = ''=''"
    using assms by auto
  then show ?thesis
  proof cases
    case 1
    then show ?thesis
      by (simp add: negateComparison_def oppositeCompare_def inverse_c_comparison inverse_c_twice)
  next
    case 2
    then show ?thesis
      by (simp add: negateComparison_def oppositeCompare_def inverse_c_comparison inverse_c_twice)
  next
    case 3
    then show ?thesis
      by (simp add: negateComparison_def oppositeCompare_def inverse_c_comparison inverse_c_twice)
  next
    case 4
    then show ?thesis
      by (simp add: negateComparison_def oppositeCompare_def inverse_c_comparison inverse_c_twice)
  next
    case 5
    then show ?thesis
      by (simp add: negateComparison_def oppositeCompare_def)
  qed
qed

text \<open>On \<open>x < 4\<close>: one application gives \<open>-x >= -4\<close>, the second gives \<open>x < 4\<close> back.\<close>

theorem negateComparison_involution_witness:
  "comparison example_lt \<in> {''<'', ''>'', ''<='', ''>='', ''=''} \<and>
   comparison (negateComparison example_lt) = ''>='' \<and>
   terms (leftSide (negateComparison example_lt)) = [(''x'', - 1)] \<and>
   terms (rightSide (negateComparison example_lt)) = [(''1'', - 4)] \<and>
   negateComparison (negateComparison example_lt) = example_lt"
proof -
  have h: "comparison example_lt \<in> {''<'', ''>'', ''<='', ''>='', ''=''}"
    by (simp add: example_lt_def)
  have n: "negateComparison example_lt =
      example_lt\<lparr>comparison := ''>='', leftSide := \<lparr>terms = [(''x'', - 1)]\<rparr>,
                 rightSide := \<lparr>terms = [(''1'', - 4)]\<rparr>\<rparr>"
    by (simp add: example_lt_def negateComparison_def oppositeCompare_def inverse_c_def
        inverse_e_def)
  have "negateComparison (negateComparison example_lt) = example_lt"
    by (rule negateComparison_involution [OF h])
  with h show ?thesis
    by (simp add: n)
qed

subsection \<open>The normal form\<close>

lemma normalize_left_no_constant: "forEachConstant (leftSide (normalize c)) = []"
  by (simp add: normalize_def removeStrictInEquality_def Let_def moveType_left_no_constant)

lemma normalize_right_no_variable: "forEachVariable (rightSide (normalize c)) = []"
  using moveType_right_no_variable [of c]
  by (auto simp: normalize_def removeStrictInEquality_def Let_def forEachVariable_empty_iff keys_addTerm)

text \<open>
  Claim C5. Calling \<open>normalize\<close> a second time after \<open>normalize\<close> changes nothing: both
  sides, the comparison and \<open>slackValue\<close> are the same before and after the second call.
  This holds for every Constraint, so for every parsed one.
\<close>

theorem normalize_idempotent: "normalize (normalize c) = normalize c"
proof -
  have "moveTypeToOneSide ''left'' ''right'' (normalize c) = normalize c"
    by (rule moveType_fixed) (rule normalize_right_no_variable, rule normalize_left_no_constant)
  moreover have "removeStrictInEquality (normalize c) = normalize c"
    using removeStrict_not_strict [of "moveTypeToOneSide ''left'' ''right'' c"]
    by (intro removeStrict_fixed) (simp_all add: normalize_def)
  ultimately show ?thesis
    by (simp add: normalize_def [of "normalize c"])
qed

lemma example_lt_move: "moveTypeToOneSide ''left'' ''right'' example_lt = example_lt"
  by (simp add: example_lt_def moveType_left_right switchSides_def forEachVariable_def
      forEachConstant_def)

lemma example_lt_normalize:
  "normalize example_lt =
     example_lt\<lparr>comparison := ''<='',
                rightSide := \<lparr>terms = [(''1'', 9007197002941178 / 2 ^ 51)]\<rparr>\<rparr>"
  unfolding normalize_def example_lt_move by (rule example_lt_strict)

text \<open>On \<open>x < 4\<close>: the first call gives \<open>x <= 3.999999\<close> (the number that \<open>4 + -1e-6\<close>
  is), the second changes nothing.\<close>

theorem normalize_idempotent_witness:
  "normalize example_lt =
     example_lt\<lparr>comparison := ''<='',
                rightSide := \<lparr>terms = [(''1'', 9007197002941178 / 2 ^ 51)]\<rparr>\<rparr> \<and>
   normalize (normalize example_lt) = normalize example_lt"
proof -
  have "normalize (normalize example_lt) = normalize example_lt"
    by (rule normalize_idempotent)
  then show ?thesis
    using example_lt_normalize by blast
qed

subsection \<open>Parsing\<close>

lemma compare_matches_elems: "list_all is_comparison (compare_matches s)"
proof (induction s rule: compare_matches.induct)
  case 1
  show ?case by simp
next
  case (2 c cs)
  show ?case
  proof (cases "c = CHR ''<'' \<or> c = CHR ''>''")
    case True
    note angle = this
    show ?thesis
    proof (cases cs)
      case Nil
      with angle show ?thesis
        by (auto simp: is_comparison_def)
    next
      case (Cons d ds)
      show ?thesis
      proof (cases "d = CHR ''=''")
        case True
        with angle Cons 2(1) [OF angle Cons True] show ?thesis 
          by (auto simp: is_comparison_def)
      next
        case False
        with angle Cons 2(2) [OF angle Cons False] show ?thesis
          by (auto simp: is_comparison_def)
      qed
    qed
  next
    case False
    note not_angle = this
    show ?thesis
    proof (cases "c = CHR ''=''")
      case True
      with not_angle 2(3) [OF not_angle True] show ?thesis
        by (simp add: is_comparison_def)
    next
      case False
      with not_angle 2(4) [OF not_angle False] show ?thesis
        by simp
    qed
  qed
qed


lemma split_compare_length:
  "length (snd (split_compare cur s)) = length (compare_matches s)"
proof (induction cur s rule: split_compare.induct)
  case (1 cur)
  show ?case by simp
next
  case (2 cur c cs)
  show ?case
  proof (cases "c = CHR ''<'' \<or> c = CHR ''>''")
    case True
    note angle = this
    show ?thesis
    proof (cases cs)
      case Nil
      with angle show ?thesis by auto
    next
      case (Cons d ds)
      show ?thesis
      proof (cases "d = CHR ''=''")
        case True
        with angle Cons 2(1) [OF angle Cons True] show ?thesis
          by (auto simp: case_prod_unfold)
      next
        case False
        with angle Cons 2(2) [OF angle Cons False] show ?thesis
          by (auto simp: case_prod_unfold)
      qed
    qed
  next
    case False
    note not_angle = this
    show ?thesis
    proof (cases "c = CHR ''=''")
      case True
      with not_angle 2(3) [OF not_angle True] show ?thesis
        by (simp add: case_prod_unfold)
    next
      case False
      with not_angle 2(4) [OF not_angle False] show ?thesis
        by simp
    qed
  qed
qed

lemma exec_comparison_elem:
  "compare_matches s \<noteq> [] \<Longrightarrow> is_comparison (exec_comparison s)"
  using compare_matches_elems [of s]
  by (cases "compare_matches s") (simp_all add: exec_comparison_def)


lemma parseToObject_comparison:
  assumes "parseToObject eparse str = Inr obj"
  shows "is_comparison (comparison_p obj)"
proof (cases "snd (split_compare [] str)")
  case Nil
  with assms have "comparison_p obj = ''=''"
    by (auto simp: parseToObject_def split: sum.splits prod.splits list.splits)
  then show ?thesis by (simp add: is_comparison_def)
next
  case (Cons a rest)
  then have "compare_matches str \<noteq> []"
    using split_compare_length [of "[]" str] by auto
  then have "is_comparison (exec_comparison str)"
    by (rule exec_comparison_elem)
  moreover from assms Cons have "comparison_p obj = exec_comparison str"
    by (auto simp: parseToObject_def split: sum.splits prod.splits list.splits)
  ultimately show ?thesis by simp
qed

lemma parse_Inr:
  assumes "parse eparse str = Inr c"
  shows "slackValue c = 0 \<and> terms_c c = [] \<and> is_comparison (comparison c)"
proof -
  from assms obtain obj where obj: "parseToObject eparse str = Inr obj"
    and c: "c = new_Constraint\<lparr>comparison := comparison_p obj, leftSide := lhs obj, rightSide := rhs obj\<rparr>"
    by (auto simp: parse_def split: sum.splits)
  from parseToObject_comparison [OF obj] show ?thesis
    by (simp add: c new_Constraint_def)
qed

subsection \<open>The standard form\<close>

lemma normalize_comparison:
  "comparison (normalize c) =
     (if comparison c = ''<'' then ''<='' else if comparison c = ''>'' then ''>='' else comparison c)"
  by (simp add: normalize_def removeStrictInEquality_def moveType_comparison Let_def)

lemma normalize_comparison_parsed:
  assumes "is_comparison (comparison c)"
  shows "comparison (normalize c) = ''<='' \<or> comparison (normalize c) = ''>='' \<or> comparison (normalize c) = ''=''"
proof -
  consider "comparison c = ''<''" | "comparison c = ''>''" | "comparison c = ''<=''"
    | "comparison c = ''>=''" | "comparison c = ''=''"
    using assms unfolding is_comparison_def by blast
  then show ?thesis
    by cases (simp_all add: normalize_comparison)
qed


lemma normalize_slackValue: "slackValue (normalize c) = slackValue c"
  by (simp add: normalize_def removeStrictInEquality_def moveType_slackValue Let_def)

lemma set_term_absent: "map_of ts n = None \<Longrightarrow> set_term n v ts = ts @ [(n, v)]"
  by (induction n v ts rule: set_term.induct) (auto split: if_splits)

lemma addTerm_absent:
  "\<not> hasTerm e n \<Longrightarrow> terms (addTerm e n v) = terms e @ [(n, fl v)]"
  by (simp add: hasTerm_def addTerm_def getTermValue_def set_term_absent js_add_def)

lemma hasTerm_addTerm: "hasTerm (addTerm e n v) n"
  by (simp add: hasTerm_def addTerm_def map_of_set_term)

lemma forEachConstant_addTerm:
  "n \<noteq> ''1'' \<Longrightarrow> forEachConstant e = [] \<Longrightarrow> forEachConstant (addTerm e n v) = []"
  by (simp add: forEachConstant_empty_iff keys_addTerm)

lemma standard_le:
  assumes "comparison (normalize c) = ''<=''"
  shows "getStandardMaxForm c = (addSlack (normalize c))\<lparr>comparison := ''=''\<rparr>"
  using assms by (simp add: getStandardMaxForm_def Let_def)

lemma standard_ge:
  assumes "comparison (normalize c) = ''>=''"
  shows "getStandardMaxForm c = (addSurplus (normalize c))\<lparr>comparison := ''=''\<rparr>"
  using assms by (simp add: getStandardMaxForm_def Let_def)

lemma standard_eq:
  assumes "comparison (normalize c) = ''=''"
  shows "getStandardMaxForm c = normalize c"
  using assms by (simp add: getStandardMaxForm_def Let_def)

lemma standard_comparison: "comparison (getStandardMaxForm c) = ''=''"
  by (simp add: getStandardMaxForm_def Let_def)

lemma standard_rightSide: "rightSide (getStandardMaxForm c) = rightSide (normalize c)"
  by (simp add: getStandardMaxForm_def Let_def addSlack_def addSurplus_def)

lemma standard_left_no_constant: "forEachConstant (leftSide (getStandardMaxForm c)) = []"
  by (simp add: getStandardMaxForm_def Let_def addSlack_def addSurplus_def
      forEachConstant_addTerm normalize_left_no_constant)

text \<open>
  Claim C1, as amended. For every successfully parsed Constraint, after
  \<open>getStandardMaxForm\<close> the comparison is \<open>=\<close>, no constant term is on the left side and no
  variable term on the right side. The normalized comparison is \<open><=\<close>, \<open>>=\<close> or \<open>=\<close>. If
  it was \<open><=\<close>, \<open>slackValue\<close> is 1 and \<open>addTerm("slack", 1)\<close> has been applied to the left
  side: 1 has been added, as numbers are added, to the coefficient of the name \<open>slack\<close>,
  which appends a term \<open>slack\<close> with coefficient +1 when the normalized left side had no
  term of that name. If
  it was \<open>>=\<close>, \<open>slackValue\<close> is -1 and the same holds for \<open>surplus\<close> and -1. If it was
  \<open>=\<close>, the left side is the normalized one and \<open>slackValue\<close> stays 0.
\<close>

theorem getStandardMaxForm_standard:
  assumes "parse eparse str = Inr c"
  shows "comparison (getStandardMaxForm c) = ''='' \<and>
    forEachConstant (leftSide (getStandardMaxForm c)) = [] \<and>
    forEachVariable (rightSide (getStandardMaxForm c)) = [] \<and>
    rightSide (getStandardMaxForm c) = rightSide (normalize c) \<and>
    (comparison (normalize c) = ''<='' \<or> comparison (normalize c) = ''>=''
       \<or> comparison (normalize c) = ''='') \<and>
    (comparison (normalize c) = ''<='' \<longrightarrow>
       slackValue (getStandardMaxForm c) = 1 \<and>
       leftSide (getStandardMaxForm c) = addTerm (leftSide (normalize c)) ''slack'' 1 \<and>
       getTermValue (leftSide (getStandardMaxForm c)) ''slack''
         = js_add (getTermValue (leftSide (normalize c)) ''slack'') 1 \<and>
       (\<not> hasTerm (leftSide (normalize c)) ''slack'' \<longrightarrow>
          terms (leftSide (getStandardMaxForm c)) = terms (leftSide (normalize c)) @ [(''slack'', 1)])) \<and>
    (comparison (normalize c) = ''>='' \<longrightarrow>
       slackValue (getStandardMaxForm c) = - 1 \<and>
       leftSide (getStandardMaxForm c) = addTerm (leftSide (normalize c)) ''surplus'' (- 1) \<and>
       getTermValue (leftSide (getStandardMaxForm c)) ''surplus''
         = js_add (getTermValue (leftSide (normalize c)) ''surplus'') (- 1) \<and>
       (\<not> hasTerm (leftSide (normalize c)) ''surplus'' \<longrightarrow>
          terms (leftSide (getStandardMaxForm c)) = terms (leftSide (normalize c)) @ [(''surplus'', - 1)])) \<and>
    (comparison (normalize c) = ''='' \<longrightarrow>
       slackValue (getStandardMaxForm c) = 0 \<and>
       leftSide (getStandardMaxForm c) = leftSide (normalize c))"
proof -
  from parse_Inr [OF assms]
  have sv: "slackValue c = 0" and cmp: "is_comparison (comparison c)"
    by simp_all
  note n = normalize_comparison_parsed [OF cmp]
  have le: "comparison (normalize c) = ''<='' \<longrightarrow>
       slackValue (getStandardMaxForm c) = 1 \<and>
       leftSide (getStandardMaxForm c) = addTerm (leftSide (normalize c)) ''slack'' 1 \<and>
       getTermValue (leftSide (getStandardMaxForm c)) ''slack''
         = js_add (getTermValue (leftSide (normalize c)) ''slack'') 1 \<and>
       (\<not> hasTerm (leftSide (normalize c)) ''slack'' \<longrightarrow>
          terms (leftSide (getStandardMaxForm c)) = terms (leftSide (normalize c)) @ [(''slack'', 1)])"
    by (simp add: standard_le addSlack_def getTermValue_addTerm addTerm_absent fl_1)
  have ge: "comparison (normalize c) = ''>='' \<longrightarrow>
       slackValue (getStandardMaxForm c) = - 1 \<and>
       leftSide (getStandardMaxForm c) = addTerm (leftSide (normalize c)) ''surplus'' (- 1) \<and>
       getTermValue (leftSide (getStandardMaxForm c)) ''surplus''
         = js_add (getTermValue (leftSide (normalize c)) ''surplus'') (- 1) \<and>
       (\<not> hasTerm (leftSide (normalize c)) ''surplus'' \<longrightarrow>
          terms (leftSide (getStandardMaxForm c)) = terms (leftSide (normalize c)) @ [(''surplus'', - 1)])"
    by (simp add: standard_ge addSurplus_def getTermValue_addTerm addTerm_absent fl_minus_1)
  have eq: "comparison (normalize c) = ''='' \<longrightarrow>
       slackValue (getStandardMaxForm c) = 0 \<and>
       leftSide (getStandardMaxForm c) = leftSide (normalize c)"
    by (simp add: standard_eq normalize_slackValue sv)
  have rv: "forEachVariable (rightSide (getStandardMaxForm c)) = []"
    by (simp only: standard_rightSide normalize_right_no_variable)
  show ?thesis
    by (intro conjI standard_comparison standard_left_no_constant rv standard_rightSide n le ge eq)
qed


lemma checkInput_example_le: "checkInput ''x + y <= 4'' = Inr ()"
  by (simp add: checkInput_def getErrorMessage_def hasManyCompares_def hasIncompleteBinaryOperator_def
      remove_spaces_def is_space_def is_op_def)

lemma checkInput_example_ge: "checkInput ''x + y >= 4'' = Inr ()"
  by (simp add: checkInput_def getErrorMessage_def hasManyCompares_def hasIncompleteBinaryOperator_def
      remove_spaces_def is_space_def is_op_def)

lemma checkInput_example_slack: "checkInput ''slack <= 4'' = Inr ()"
  by (simp add: checkInput_def getErrorMessage_def hasManyCompares_def hasIncompleteBinaryOperator_def
      remove_spaces_def is_space_def is_op_def)

lemma parse_example_le: "parse example_parser ''x + y <= 4'' = Inr example_le"
  by (simp add: parse_def parseToObject_def checkInput_example_le example_parser_def
      exec_comparison_def new_Constraint_def example_le_def)

lemma parse_example_ge: "parse example_parser ''x + y >= 4'' = Inr example_ge"
  by (simp add: parse_def parseToObject_def checkInput_example_ge example_parser_def
      exec_comparison_def new_Constraint_def example_ge_def)

lemma parse_example_slack: "parse example_parser ''slack <= 4'' = Inr example_slack"
  by (simp add: parse_def parseToObject_def checkInput_example_slack example_parser_def
      exec_comparison_def new_Constraint_def example_slack_def)

lemma normalize_example_le: "normalize example_le = example_le"
  by (simp add: example_le_def normalize_def moveType_left_right switchSides_def forEachVariable_def
      forEachConstant_def removeStrictInEquality_def)

lemma normalize_example_ge: "normalize example_ge = example_ge"
  by (simp add: example_ge_def normalize_def moveType_left_right switchSides_def forEachVariable_def
      forEachConstant_def removeStrictInEquality_def)

lemma normalize_example_slack: "normalize example_slack = example_slack"
  by (simp add: example_slack_def normalize_def moveType_left_right switchSides_def forEachVariable_def
      forEachConstant_def removeStrictInEquality_def)

text \<open>On \<open>x + y <= 4\<close> and \<open>x + y >= 4\<close>: a term \<open>slack\<close> with coefficient 1, respectively
  \<open>surplus\<close> with coefficient -1, is appended.\<close>

theorem getStandardMaxForm_standard_witness:
  "parse example_parser ''x + y <= 4'' = Inr example_le \<and>
   comparison (normalize example_le) = ''<='' \<and>
   comparison (getStandardMaxForm example_le) = ''='' \<and>
   terms (leftSide (getStandardMaxForm example_le)) = [(''x'', 1), (''y'', 1), (''slack'', 1)] \<and>
   terms (rightSide (getStandardMaxForm example_le)) = [(''1'', 4)] \<and>
   slackValue (getStandardMaxForm example_le) = 1 \<and>
   parse example_parser ''x + y >= 4'' = Inr example_ge \<and>
   comparison (normalize example_ge) = ''>='' \<and>
   comparison (getStandardMaxForm example_ge) = ''='' \<and>
   terms (leftSide (getStandardMaxForm example_ge)) = [(''x'', 1), (''y'', 1), (''surplus'', - 1)] \<and>
   terms (rightSide (getStandardMaxForm example_ge)) = [(''1'', 4)] \<and>
   slackValue (getStandardMaxForm example_ge) = - 1"
proof -
  have le: "comparison (normalize example_le) = ''<=''"
    and no_slack: "\<not> hasTerm (leftSide (normalize example_le)) ''slack''"
    and l_le: "terms (leftSide (normalize example_le)) = [(''x'', 1), (''y'', 1)]"
    and r_le: "terms (rightSide (normalize example_le)) = [(''1'', 4)]"
    unfolding normalize_example_le by (simp_all add: example_le_def hasTerm_def)
  have ge: "comparison (normalize example_ge) = ''>=''"
    and no_surplus: "\<not> hasTerm (leftSide (normalize example_ge)) ''surplus''"
    and l_ge: "terms (leftSide (normalize example_ge)) = [(''x'', 1), (''y'', 1)]"
    and r_ge: "terms (rightSide (normalize example_ge)) = [(''1'', 4)]"
    unfolding normalize_example_ge by (simp_all add: example_ge_def hasTerm_def)
  from getStandardMaxForm_standard [OF parse_example_le] le no_slack
  have a: "comparison (getStandardMaxForm example_le) = ''=''"
    "rightSide (getStandardMaxForm example_le) = rightSide (normalize example_le)"
    "slackValue (getStandardMaxForm example_le) = 1"
    "terms (leftSide (getStandardMaxForm example_le)) = terms (leftSide (normalize example_le)) @ [(''slack'', 1)]"
    by blast+
  from getStandardMaxForm_standard [OF parse_example_ge] ge no_surplus
  have b: "comparison (getStandardMaxForm example_ge) = ''=''"
    "rightSide (getStandardMaxForm example_ge) = rightSide (normalize example_ge)"
    "slackValue (getStandardMaxForm example_ge) = - 1"
    "terms (leftSide (getStandardMaxForm example_ge)) = terms (leftSide (normalize example_ge)) @ [(''surplus'', - 1)]"
    by blast+
  show ?thesis
    by (simp add: parse_example_le parse_example_ge le ge a b l_le r_le l_ge r_ge)
qed

text \<open>The claim as first stated fails on \<open>slack <= 4\<close>, whose variable is itself named
  \<open>slack\<close>: no term is appended, and the coefficient of \<open>slack\<close> becomes 2.\<close>

theorem slack_coefficient_counterexample:
  "parse example_parser ''slack <= 4'' = Inr example_slack \<and>
   comparison (normalize example_slack) = ''<='' \<and>
   terms (leftSide (normalize example_slack)) = [(''slack'', 1)] \<and>
   terms (leftSide (getStandardMaxForm example_slack)) = [(''slack'', 2)] \<and>
   getTermValue (leftSide (getStandardMaxForm example_slack)) ''slack'' \<noteq> 1"
proof -
  have "getStandardMaxForm example_slack =
      example_slack\<lparr>comparison := ''='', leftSide := \<lparr>terms = [(''slack'', 2)]\<rparr>, slackValue := 1\<rparr>"
    by (simp add: getStandardMaxForm_def normalize_example_slack Let_def)
       (simp add: example_slack_def addSlack_def addTerm_def getTermValue_def js_add_def fl_2)
  then show ?thesis
    by (simp add: parse_example_slack normalize_example_slack getTermValue_def)
       (simp add: example_slack_def)
qed

subsection \<open>Names of the slack and surplus variables\<close>

lemma hasTerm_iff: "hasTerm e k \<longleftrightarrow> k \<in> fst ` set (terms e)"
  by (simp add: hasTerm_def map_of_eq_None_iff)

lemma new_term_names_addTerm_subset:
  "set (new_term_names e (addTerm e n v)) \<subseteq> {n}"
proof -
  have "set (new_term_names e (addTerm e n v))
      = {k \<in> fst ` set (terms (addTerm e n v)). k \<notin> fst ` set (terms e)}"
    by (auto simp: new_term_names_def hasTerm_iff)
  then show ?thesis
    by (auto simp: keys_addTerm)
qed

lemma new_term_names_addTerm_absent:
  assumes "\<not> hasTerm e n"
  shows "new_term_names e (addTerm e n v) = [n]"
proof -
  have "filter (\<lambda>k. \<not> hasTerm e k) (map fst (terms e)) = []"
    by (auto simp: filter_empty_conv hasTerm_iff)
  with assms show ?thesis
    by (simp add: new_term_names_def addTerm_absent)
qed

text \<open>
  Claim C2, as amended. The slack variable that \<open>addSlack\<close> introduces has the one fixed
  name \<open>slack\<close> for every Constraint, and the surplus variable that \<open>addSurplus\<close>
  introduces the one fixed name \<open>surplus\<close>: the left side gains no other name, it has a
  term of that name afterwards, and the name is new exactly when the left side had no
  term of that name. Two \<open><=\<close> constraints therefore get slack variables of the same
  name; only a slack and a surplus variable differ in name.
\<close>

theorem slack_names_fixed:
  "set (new_term_names (leftSide c) (leftSide (addSlack c))) \<subseteq> {''slack''} \<and>
   hasTerm (leftSide (addSlack c)) ''slack'' \<and>
   (\<not> hasTerm (leftSide c) ''slack'' \<longrightarrow>
      new_term_names (leftSide c) (leftSide (addSlack c)) = [''slack'']) \<and>
   set (new_term_names (leftSide c) (leftSide (addSurplus c))) \<subseteq> {''surplus''} \<and>
   hasTerm (leftSide (addSurplus c)) ''surplus'' \<and>
   (\<not> hasTerm (leftSide c) ''surplus'' \<longrightarrow>
      new_term_names (leftSide c) (leftSide (addSurplus c)) = [''surplus''])"
  by (simp add: addSlack_def addSurplus_def new_term_names_addTerm_subset hasTerm_addTerm
      new_term_names_addTerm_absent)

text \<open>On \<open>x + y <= 4\<close> and \<open>x + y >= 4\<close>.\<close>

theorem slack_names_fixed_witness:
  "\<not> hasTerm (leftSide example_le) ''slack'' \<and>
   new_term_names (leftSide example_le) (leftSide (addSlack example_le)) = [''slack''] \<and>
   hasTerm (leftSide (addSlack example_le)) ''slack'' \<and>
   \<not> hasTerm (leftSide example_ge) ''surplus'' \<and>
   new_term_names (leftSide example_ge) (leftSide (addSurplus example_ge)) = [''surplus''] \<and>
   hasTerm (leftSide (addSurplus example_ge)) ''surplus''"
proof -
  have h: "\<not> hasTerm (leftSide example_le) ''slack''" "\<not> hasTerm (leftSide example_ge) ''surplus''"
    by (simp_all add: example_le_def example_ge_def hasTerm_def)
  from slack_names_fixed [of example_le] slack_names_fixed [of example_ge] h
  show ?thesis by blast
qed

text \<open>The claim as first stated fails on the two distinct constraints \<open>x + y <= 4\<close> and
  \<open>x + 2y <= 5\<close>: both gain the name \<open>slack\<close>.\<close>

theorem slack_names_counterexample:
  "example_le \<noteq> example_le2 \<and>
   comparison example_le = ''<='' \<and> comparison example_le2 = ''<='' \<and>
   new_term_names (leftSide example_le) (leftSide (addSlack example_le)) = [''slack''] \<and>
   new_term_names (leftSide example_le2) (leftSide (addSlack example_le2)) = [''slack'']"
proof -
  have "rightSide example_le \<noteq> rightSide example_le2"
    by (simp add: example_le_def example_le2_def)
  then have "example_le \<noteq> example_le2" by auto
  moreover have "\<not> hasTerm (leftSide example_le) ''slack''" "\<not> hasTerm (leftSide example_le2) ''slack''"
    by (simp_all add: example_le_def example_le2_def hasTerm_def)
  ultimately show ?thesis
    by (simp add: addSlack_def new_term_names_addTerm_absent)
       (simp add: example_le_def example_le2_def)
qed

subsection \<open>Moving one term\<close>

lemma not_isNaN_1: "\<not> isNaN ''1''"
  by (simp add: isNaN_def trim_spaces_def numeric_literal_def non_decimal_integer_def
      unsigned_decimal_def is_space_def is_digit_def)

lemma not_isNaN_30: "\<not> isNaN ''30''"
  by (simp add: isNaN_def trim_spaces_def numeric_literal_def non_decimal_integer_def
      unsigned_decimal_def is_space_def is_digit_def exponent_part_opt_def)

lemma varSwitchSide_numeric:
  "\<not> isNaN name \<Longrightarrow> varSwitchSide name moveTo c = varSwitchSide ''1'' moveTo c"
  by (simp add: varSwitchSide_def not_isNaN_1)

lemma map_of_filter_other:
  "k \<noteq> n \<Longrightarrow> map_of (filter (\<lambda>p. fst p \<noteq> n) ts) k = map_of ts k"
  by (induction ts) auto

lemma map_of_removeTerm_other:
  "k \<noteq> n \<Longrightarrow> map_of (terms (removeTerm e n)) k = map_of (terms e) k"
  by (simp add: terms_removeTerm map_of_filter_other)

lemma varSwitchSide_other_left:
  "k \<noteq> ''1'' \<Longrightarrow> map_of (terms (leftSide (varSwitchSide ''1'' moveTo c))) k = map_of (terms (leftSide c)) k"
  by (simp add: varSwitchSide_def Let_def not_isNaN_1 map_of_removeTerm_other map_of_addTerm_other)

lemma varSwitchSide_other_right:
  "k \<noteq> ''1'' \<Longrightarrow> map_of (terms (rightSide (varSwitchSide ''1'' moveTo c))) k = map_of (terms (rightSide c)) k"
  by (simp add: varSwitchSide_def Let_def not_isNaN_1 map_of_removeTerm_other map_of_addTerm_other)

lemma test_left: "test_left_or_right ''left''" and test_up: "\<not> test_left_or_right ''up''"
  and test_right: "test_left_or_right ''right''"
  by (simp_all add: test_left_or_right_def)

lemma hasTerm_removeTerm: "\<not> hasTerm (removeTerm e n) n"
  by (auto simp: hasTerm_def terms_removeTerm map_of_eq_None_iff)

lemma varSwitchSide_1_left:
  assumes "hasTerm (rightSide c) ''1''"
  shows "varSwitchSide ''1'' ''left'' c =
    c\<lparr>rightSide := removeTerm (rightSide c) ''1'',
      leftSide := addTerm (leftSide c) ''1'' (- getTermValue (rightSide c) ''1'')\<rparr>"
  using assms by (simp add: varSwitchSide_def test_left not_isNaN_1 Let_def)

lemma varSwitchSide_1_left_absent:
  assumes "\<not> hasTerm (rightSide c) ''1''"
  shows "varSwitchSide ''1'' ''left'' c = c"
  using assms by (simp add: varSwitchSide_def test_left not_isNaN_1 Let_def)

lemma varSwitchSide_1_right:
  assumes "test_left_or_right moveTo" and "moveTo \<noteq> ''left''" and "hasTerm (leftSide c) ''1''"
  shows "varSwitchSide ''1'' moveTo c =
    c\<lparr>leftSide := removeTerm (leftSide c) ''1'',
      rightSide := addTerm (rightSide c) ''1'' (- getTermValue (leftSide c) ''1'')\<rparr>"
  using assms by (simp add: varSwitchSide_def not_isNaN_1 Let_def) 

lemma varSwitchSide_1_right_absent:
  assumes "moveTo \<noteq> ''left''" and "\<not> hasTerm (leftSide c) ''1''"
  shows "varSwitchSide ''1'' moveTo c = c"
  using assms by (simp add: varSwitchSide_def not_isNaN_1 Let_def)

text \<open>
  Claim C9. For a term name that is a numeric string (\<open>isNaN(name)\<close> is false, as for
  \<open>"30"\<close>), \<open>varSwitchSide(name, moveTo)\<close> works on the constant term \<open>"1"\<close>: it does what
  \<open>varSwitchSide("1", moveTo)\<close> does. With \<open>moveTo\<close> equal to \<open>left\<close> it removes the term
  \<open>"1"\<close> from the right side and adds its negated coefficient to the term \<open>"1"\<close> of the
  left side; with any other \<open>moveTo\<close> that matches \<open>left\<close> or \<open>right\<close> it moves the term
  \<open>"1"\<close> from the left side to the right side in the same way; when the side it moves
  from has no term \<open>"1"\<close> nothing changes. A term literally named \<open>name\<close> keeps its
  coefficient on both sides. For a \<open>moveTo\<close> that matches neither \<open>left\<close> nor \<open>right\<close>
  the Constraint is returned unchanged.
\<close>

theorem varSwitchSide_numeric_name:
  "(\<not> isNaN name \<longrightarrow>
      varSwitchSide name moveTo c = varSwitchSide ''1'' moveTo c \<and>
      (moveTo = ''left'' \<and> hasTerm (rightSide c) ''1'' \<longrightarrow>
         varSwitchSide name moveTo c =
           c\<lparr>rightSide := removeTerm (rightSide c) ''1'',
             leftSide := addTerm (leftSide c) ''1'' (- getTermValue (rightSide c) ''1'')\<rparr> \<and>
         \<not> hasTerm (rightSide (varSwitchSide name moveTo c)) ''1'' \<and>
         getTermValue (leftSide (varSwitchSide name moveTo c)) ''1''
           = js_add (getTermValue (leftSide c) ''1'') (- getTermValue (rightSide c) ''1'')) \<and>
      (test_left_or_right moveTo \<and> moveTo \<noteq> ''left'' \<and> hasTerm (leftSide c) ''1'' \<longrightarrow>
         varSwitchSide name moveTo c =
           c\<lparr>leftSide := removeTerm (leftSide c) ''1'',
             rightSide := addTerm (rightSide c) ''1'' (- getTermValue (leftSide c) ''1'')\<rparr> \<and>
         \<not> hasTerm (leftSide (varSwitchSide name moveTo c)) ''1'' \<and>
         getTermValue (rightSide (varSwitchSide name moveTo c)) ''1''
           = js_add (getTermValue (rightSide c) ''1'') (- getTermValue (leftSide c) ''1'')) \<and>
      (moveTo = ''left'' \<and> \<not> hasTerm (rightSide c) ''1'' \<longrightarrow> varSwitchSide name moveTo c = c) \<and>
      (moveTo \<noteq> ''left'' \<and> \<not> hasTerm (leftSide c) ''1'' \<longrightarrow> varSwitchSide name moveTo c = c) \<and>
      (name \<noteq> ''1'' \<longrightarrow>
         map_of (terms (leftSide (varSwitchSide name moveTo c))) name = map_of (terms (leftSide c)) name \<and>
         map_of (terms (rightSide (varSwitchSide name moveTo c))) name = map_of (terms (rightSide c)) name)) \<and>
   (\<not> test_left_or_right moveTo \<longrightarrow> varSwitchSide name moveTo c = c)"
proof (intro conjI impI)
  assume n: "\<not> isNaN name"
  note eq = varSwitchSide_numeric [OF n]
  show "varSwitchSide name moveTo c = varSwitchSide ''1'' moveTo c"
    by (rule eq)
  {
    assume l: "moveTo = ''left'' \<and> hasTerm (rightSide c) ''1''"
    then have r: "varSwitchSide name moveTo c =
        c\<lparr>rightSide := removeTerm (rightSide c) ''1'',
          leftSide := addTerm (leftSide c) ''1'' (- getTermValue (rightSide c) ''1'')\<rparr>"
      by (simp add: eq varSwitchSide_1_left)
    show "varSwitchSide name moveTo c =
        c\<lparr>rightSide := removeTerm (rightSide c) ''1'',
          leftSide := addTerm (leftSide c) ''1'' (- getTermValue (rightSide c) ''1'')\<rparr>"
      by (rule r)
    show "\<not> hasTerm (rightSide (varSwitchSide name moveTo c)) ''1''"
      by (simp add: r hasTerm_removeTerm)
    show "getTermValue (leftSide (varSwitchSide name moveTo c)) ''1''
           = js_add (getTermValue (leftSide c) ''1'') (- getTermValue (rightSide c) ''1'')"
      by (simp add: r getTermValue_addTerm)
  }
  {
    assume l: "test_left_or_right moveTo \<and> moveTo \<noteq> ''left'' \<and> hasTerm (leftSide c) ''1''"
    then have r: "varSwitchSide name moveTo c =
        c\<lparr>leftSide := removeTerm (leftSide c) ''1'',
          rightSide := addTerm (rightSide c) ''1'' (- getTermValue (leftSide c) ''1'')\<rparr>"
      by (simp add: eq varSwitchSide_1_right)
    show "varSwitchSide name moveTo c =
        c\<lparr>leftSide := removeTerm (leftSide c) ''1'',
          rightSide := addTerm (rightSide c) ''1'' (- getTermValue (leftSide c) ''1'')\<rparr>"
      by (rule r)
    show "\<not> hasTerm (leftSide (varSwitchSide name moveTo c)) ''1''"
      by (simp add: r hasTerm_removeTerm)
    show "getTermValue (rightSide (varSwitchSide name moveTo c)) ''1''
           = js_add (getTermValue (rightSide c) ''1'') (- getTermValue (leftSide c) ''1'')"
      by (simp add: r getTermValue_addTerm)
  }
  show "varSwitchSide name moveTo c = c" if "moveTo = ''left'' \<and> \<not> hasTerm (rightSide c) ''1''"
    using that by (simp add: eq varSwitchSide_1_left_absent)
  show "varSwitchSide name moveTo c = c" if "moveTo \<noteq> ''left'' \<and> \<not> hasTerm (leftSide c) ''1''"
    using that by (simp add: eq varSwitchSide_1_right_absent)
  {
    assume "name \<noteq> ''1''"
    then show "map_of (terms (leftSide (varSwitchSide name moveTo c))) name = map_of (terms (leftSide c)) name"
      and "map_of (terms (rightSide (varSwitchSide name moveTo c))) name = map_of (terms (rightSide c)) name"
      by (simp_all add: eq varSwitchSide_other_left varSwitchSide_other_right)
  }
next
  assume "\<not> test_left_or_right moveTo"
  then show "varSwitchSide name moveTo c = c"
    by (simp add: varSwitchSide_def)
qed

text \<open>On \<open>a = cats + 30\<close> with an extra term named \<open>30\<close>: moving \<open>"30"\<close> to the left moves
  the constant 30 and leaves the term named \<open>30\<close> where it is. On \<open>a + 30 = cats\<close> with
  such a term, moving \<open>"30"\<close> to the right does the same in the other direction.\<close>

theorem varSwitchSide_numeric_name_witness:
  "\<not> isNaN ''30'' \<and> ''30'' \<noteq> ''1'' \<and>
   hasTerm (rightSide example_30) ''1'' \<and>
   varSwitchSide ''30'' ''left'' example_30 = varSwitchSide ''1'' ''left'' example_30 \<and>
   terms (leftSide (varSwitchSide ''30'' ''left'' example_30)) = [(''a'', 1), (''1'', - 30)] \<and>
   terms (rightSide (varSwitchSide ''30'' ''left'' example_30)) = [(''cats'', 1), (''30'', 7)] \<and>
   test_left_or_right ''right'' \<and> ''right'' \<noteq> ''left'' \<and>
   hasTerm (leftSide example_30_left) ''1'' \<and>
   terms (leftSide (varSwitchSide ''30'' ''right'' example_30_left)) = [(''a'', 1), (''30'', 7)] \<and>
   terms (rightSide (varSwitchSide ''30'' ''right'' example_30_left)) = [(''cats'', 1), (''1'', - 30)] \<and>
   \<not> test_left_or_right ''up'' \<and>
   varSwitchSide ''30'' ''up'' example_30 = example_30"
proof -
  have h: "hasTerm (rightSide example_30) ''1''" "hasTerm (leftSide example_30_left) ''1''"
    by (simp_all add: example_30_def example_30_left_def hasTerm_def)
  have d: "''right'' \<noteq> ''left''" "''30'' \<noteq> ''1''" by simp_all
  from varSwitchSide_numeric_name [of "''30''" "''left''" example_30] not_isNaN_30 h(1)
  have a: "varSwitchSide ''30'' ''left'' example_30 = varSwitchSide ''1'' ''left'' example_30"
    "varSwitchSide ''30'' ''left'' example_30 =
       example_30\<lparr>rightSide := removeTerm (rightSide example_30) ''1'',
         leftSide := addTerm (leftSide example_30) ''1'' (- getTermValue (rightSide example_30) ''1'')\<rparr>"
    by blast+
  from varSwitchSide_numeric_name [of "''30''" "''right''" example_30_left] not_isNaN_30 h(2) test_right d(1)
  have b: "varSwitchSide ''30'' ''right'' example_30_left =
       example_30_left\<lparr>leftSide := removeTerm (leftSide example_30_left) ''1'',
         rightSide := addTerm (rightSide example_30_left) ''1'' (- getTermValue (leftSide example_30_left) ''1'')\<rparr>"
    by blast
  from varSwitchSide_numeric_name [of "''30''" "''up''" example_30] test_up
  have c: "varSwitchSide ''30'' ''up'' example_30 = example_30"
    by blast
  have la: "terms (leftSide (varSwitchSide ''30'' ''left'' example_30)) = [(''a'', 1), (''1'', - 30)]"
    and ra: "terms (rightSide (varSwitchSide ''30'' ''left'' example_30)) = [(''cats'', 1), (''30'', 7)]"
    unfolding a(2)
    by (simp_all add: example_30_def getTermValue_def addTerm_def removeTerm_def js_add_def fl_30)
  have lb: "terms (leftSide (varSwitchSide ''30'' ''right'' example_30_left)) = [(''a'', 1), (''30'', 7)]"
    and rb: "terms (rightSide (varSwitchSide ''30'' ''right'' example_30_left)) = [(''cats'', 1), (''1'', - 30)]"
    unfolding b
    by (simp_all add: example_30_left_def getTermValue_def addTerm_def removeTerm_def js_add_def fl_30)
  show ?thesis
    using not_isNaN_30 test_up test_right h a(1) c la ra lb rb by simp
qed

subsection \<open>Texts that parse rejects\<close>


lemma checkInput_message:
  assumes "getErrorMessage str = Some msg" and "msg \<noteq> []"
  shows "checkInput str = Inl (Error msg)"
  using assms by (simp add: checkInput_def)

lemma parse_checkInput:
  assumes "checkInput str = Inl e"
  shows "parse eparse str = Inl e"
  using assms by (simp add: parse_def parseToObject_def)












lemma missing_operand_regex:
  "operator_missing_operand t \<Longrightarrow> RE_noLeftAndRightTerms t"
proof (induction t rule: RE_noLeftAndRightTerms.induct)
  case 1
  then show ?case by (simp add: operator_missing_operand_def)
next
  case (2 c)
  then show ?case by (auto simp: operator_missing_operand_def is_op_def)
next
  case (3 c d rest)
  from 3(2) obtain i where i: "i < length (c # d # rest)"
    "(c # d # rest) ! i = CHR ''+'' \<or> (c # d # rest) ! i = CHR ''-''"
    "Suc i = length (c # d # rest) \<or> is_op ((c # d # rest) ! Suc i)"
    unfolding operator_missing_operand_def by blast
  show ?case
  proof (cases i)
    case 0
    with i show ?thesis by simp
  next
    case (Suc j)
    with i have "operator_missing_operand (d # rest)"
      unfolding operator_missing_operand_def by (intro exI [of _ j]) simp
    then have "RE_noLeftAndRightTerms (d # rest)" by (rule 3(1))
    then show ?thesis by simp
  qed
qed

lemma incomplete_message:
  assumes "hasIncompleteBinaryOperator str"
  shows "\<exists>msg. msg \<noteq> [] \<and> getErrorMessage str = Some msg"
  using assms by (simp add: getErrorMessage_def Let_def)

text \<open>
  Claim C7. For every input string in which a \<open>+\<close> or \<open>-\<close> operator is missing an
  operand, \<open>Constraint.parse\<close> throws an error, whatever \<open>Expression.parse\<close> does. The
  operator is missing an operand when, white space aside, it is directly followed by
  another operator character (two adjacent operators) or stands at the end of the string.
  A \<open>+\<close> or \<open>-\<close> that opens the text or follows the comparison is the sign of a term
  (section 4.1 of the specification), not an operator without an operand.
\<close>

theorem parse_rejects_missing_operand:
  assumes "operator_missing_operand (remove_spaces str)"
  shows "\<exists>msg. parse eparse str = Inl (Error msg)"
proof -
  from assms have "RE_noLeftAndRightTerms (remove_spaces str)"
    by (rule missing_operand_regex)
  then have "hasIncompleteBinaryOperator str"
    by (simp add: hasIncompleteBinaryOperator_def)
  then obtain msg where "msg \<noteq> []" "getErrorMessage str = Some msg"
    using incomplete_message by blast
  then have "checkInput str = Inl (Error msg)"
    by (simp add: checkInput_message)
  then have "parse eparse str = Inl (Error msg)"
    by (rule parse_checkInput)
  then show ?thesis ..
qed

lemma spaces_a_plus_plus: "remove_spaces ''a + + b = 3'' = ''a++b=3''"
  by (simp add: remove_spaces_def is_space_def)

lemma spaces_a_b_plus: "remove_spaces ''a + b +'' = ''a+b+''"
  by (simp add: remove_spaces_def is_space_def)

text \<open>Parsing \<open>a + + b = 3\<close> fails, and so does \<open>a + b +\<close>.\<close>

theorem parse_rejects_missing_operand_witness:
  "operator_missing_operand (remove_spaces ''a + + b = 3'') \<and>
   parse example_parser ''a + + b = 3'' =
     Inl (Error ''Math operators must be in between terms. Good:(a+b=c). Bad:(a b+=c)'') \<and>
   operator_missing_operand (remove_spaces ''a + b +'') \<and>
   (\<exists>msg. parse example_parser ''a + b +'' = Inl (Error msg))"
proof -
  have h1: "operator_missing_operand (remove_spaces ''a + + b = 3'')"
    unfolding spaces_a_plus_plus operator_missing_operand_def
    by (intro exI [of _ 1]) (simp add: is_op_def)
  have h2: "operator_missing_operand (remove_spaces ''a + b +'')"
    unfolding spaces_a_b_plus operator_missing_operand_def
    by (intro exI [of _ 3]) (simp add: is_op_def)
  have m: "compare_matches ''a++b=3'' = [''='']" by simp
  have "getErrorMessage ''a + + b = 3'' =
      Some ''Math operators must be in between terms. Good:(a+b=c). Bad:(a b+=c)''"
    by (simp add: getErrorMessage_def hasManyCompares_def hasIncompleteBinaryOperator_def
        spaces_a_plus_plus m is_op_def)
  then have "checkInput ''a + + b = 3'' =
      Inl (Error ''Math operators must be in between terms. Good:(a+b=c). Bad:(a b+=c)'')"
    by (rule checkInput_message) simp
  then have p: "parse example_parser ''a + + b = 3'' =
      Inl (Error ''Math operators must be in between terms. Good:(a+b=c). Bad:(a b+=c)'')"
    by (rule parse_checkInput)
  from parse_rejects_missing_operand [OF h1, of example_parser]
    parse_rejects_missing_operand [OF h2, of example_parser] h1 h2 p
  show ?thesis by blast
qed

subsection \<open>Term names of a Constraint\<close>

lemma first_occurrences_filter:
  "first_occurrences (filter P xs) = filter P (first_occurrences xs)"
proof (induction xs)
  case Nil
  show ?case by simp
next
  case (Cons a xs)
  show ?case
  proof (cases "P a")
    case True
    then show ?thesis
      by (simp add: Cons.IH conj_commute)
  next
    case False
    then have "filter P (filter (\<lambda>y. y \<noteq> a) ys) = filter P ys" for ys
      by (induction ys) auto
    with False show ?thesis
      by (simp add: Cons.IH)
  qed
qed

lemma getUniqueArray_loop_eq:
  "getUniqueArray_loop arr result hash =
     result @ filter (\<lambda>n. \<not> inherited_name n)
                (first_occurrences (filter (\<lambda>n. n \<notin> set hash) arr))"
proof (induction arr arbitrary: result hash)
  case Nil
  show ?case by simp
next
  case (Cons x arr)
  show ?case
  proof (cases "x \<in> set hash")
    case True
    then show ?thesis
      by (simp add: hash_truthy_def Cons.IH)
  next
    case False
    note fresh = this
    show ?thesis
    proof (cases "inherited_name x")
      case True
      then have "filter (\<lambda>n. \<not> inherited_name n) (filter (\<lambda>y. y \<noteq> x) ys)
          = filter (\<lambda>n. \<not> inherited_name n) ys" for ys
        by (induction ys) auto
      with True fresh show ?thesis
        by (simp add: hash_truthy_def Cons.IH inherited_name_def [symmetric])
    next
      case False
      have "filter (\<lambda>y. y \<noteq> x) (first_occurrences (filter (\<lambda>n. n \<notin> set hash) arr))
          = first_occurrences (filter (\<lambda>n. n \<notin> set (x # hash)) arr)"
        by (simp add: first_occurrences_filter [symmetric] conj_commute)
      with False fresh show ?thesis
        by (simp add: hash_truthy_def Cons.IH inherited_name_def [symmetric])
    qed
  qed
qed

lemma getUniqueArray_eq:
  "getUniqueArray arr = filter (\<lambda>n. \<not> inherited_name n) (first_occurrences arr)"
  by (simp add: getUniqueArray_def getUniqueArray_loop_eq)

text \<open>
  Claim C10. \<open>getTermNames\<close> returns the term names of the left side followed by those of
  the right side, each at its first occurrence and with the later duplicates removed,
  except that every name that is also a property name inherited from \<open>Object.prototype\<close>
  (such as \<open>constructor\<close> or \<open>toString\<close>) is left out altogether.
\<close>

theorem getTermNames_first_occurrences:
  "getTermNames c =
     filter (\<lambda>n. \<not> inherited_name n)
       (first_occurrences (getTermNames_e (leftSide c) @ getTermNames_e (rightSide c)))"
  by (simp add: getTermNames_def getUniqueArray_eq)

text \<open>With the names \<open>a, toString, b\<close> on the left and \<open>b, constructor, a, 1\<close> on the right
  the result is \<open>a, b, 1\<close>.\<close>

theorem getTermNames_first_occurrences_witness:
  "getTermNames_e (leftSide example_names) = [''a'', ''toString'', ''b''] \<and>
   getTermNames_e (rightSide example_names) = [''b'', ''constructor'', ''a'', ''1''] \<and>
   inherited_name ''toString'' \<and> inherited_name ''constructor'' \<and>
   getTermNames example_names = [''a'', ''b'', ''1'']"
proof -
  have l: "getTermNames_e (leftSide example_names) = [''a'', ''toString'', ''b'']"
    and r: "getTermNames_e (rightSide example_names) = [''b'', ''constructor'', ''a'', ''1'']"
    by (simp_all add: example_names_def getTermNames_e_def)
  have i: "inherited_name ''toString''" "inherited_name ''constructor''"
    "\<not> inherited_name ''a''" "\<not> inherited_name ''b''" "\<not> inherited_name ''1''"
    by (simp_all add: inherited_name_def object_prototype_names_def)
  have "getTermNames example_names = [''a'', ''b'', ''1'']"
    unfolding getTermNames_first_occurrences l r by (simp add: i)
  with l r i show ?thesis by simp
qed

subsection \<open>Equality of Constraints\<close>

lemma example_x_le_differs: "example_x_le \<noteq> example_le"
proof -
  have "leftSide example_x_le \<noteq> leftSide example_le"
    by (simp add: example_x_le_def example_le_def)
  then show ?thesis by auto
qed

text \<open>
  Claim C8 says that \<open>equals\<close> is true exactly for structurally equal Constraints. The
  code does not do that: \<open>areObjectsSame\<close> visits the own properties of its first argument
  only. With \<open>x <= 4\<close> as receiver and \<open>x + y <= 4\<close> as argument the result is \<open>true\<close>,
  although the two differ in the term \<open>y\<close>; with the two exchanged, the term \<open>y\<close> is read
  from an object that lacks it and \<open>toString\<close> of \<open>undefined\<close> throws a TypeError instead of
  answering \<open>false\<close>. This holds whatever text \<open>toString\<close> gives for a number.
\<close>

theorem equals_not_structural:
  "example_x_le \<noteq> example_le \<and>
   equals to_str (constraint_object 10 example_x_le) (constraint_object 20 example_le) = Inr True \<and>
   equals to_str (constraint_object 20 example_le) (constraint_object 10 example_x_le) = Inl TypeError"
proof -
  have "equals to_str (constraint_object 10 example_x_le) (constraint_object 20 example_le) = Inr True"
    by (simp add: equals_def constraint_object_def expression_object_def terms_object_def
        example_x_le_def example_le_def)
  moreover
  have "equals to_str (constraint_object 20 example_le) (constraint_object 10 example_x_le) = Inl TypeError"
    by (simp add: equals_def constraint_object_def expression_object_def terms_object_def
        example_x_le_def example_le_def object_prototype_names_def)
  ultimately show ?thesis
    using example_x_le_differs by simp
qed

end
